theory Spec2Isabelle
  imports Main "HOL-Library.Word" "HOL-Library.Numeral_Type" "HOL-Library.Type_Length"
begin

unbundle bit_operations_syntax

section \<open>Machine types, failures and the debug switch\<close>

text \<open>
  The library is C++ for a 64-bit target: \<open>size_t\<close>, \<open>ptrdiff_t\<close> and raw pointers are
  64-bit words (\<open>ptrdiff_t\<close> is read with \<open>sint\<close>), the null pointer is the word 0.
  The template parameter \<open>Index\<close> (\<open>uint16_t\<close> or \<open>uint32_t\<close>) is the word type
  \<open>'a word\<close>; \<open>sizeof(Index)\<close> is \<open>LENGTH('a) div 8\<close>.
\<close>

type_synonym size_t = "64 word"

type_synonym ptr = "64 word"

text \<open>
  What a call can end with instead of a result: the three exceptions the sources throw,
  the abort of a failed \<open>indexed_assert\<close>, the trap of an integer division by zero, and
  the crash of a read through the null pointer.
\<close>

datatype failure =
  bad_alloc | length_error | runtime_error | assert_failed | division_by_zero | segfault

text \<open>
  \<open>indexed_assert(arg)\<close> of Config.h: with \<open>INDEXED_DEBUG == 1\<close> a false argument aborts,
  with \<open>INDEXED_DEBUG == 0\<close> the macro is \<open>((void)0)\<close>. The switch is the first argument
  \<open>dbg\<close> of every function that asserts; \<open>indexed_assert dbg c\<close> says that execution
  passes the assertion.

  \<open>indexed_warning(arg)\<close> prints a line when its argument is false: with
  \<open>INDEXED_DEBUG == 1\<close> the argument is evaluated, with \<open>INDEXED_DEBUG == 0\<close> the macro is
  \<open>((void)0)\<close>. The printing is not modelled; the evaluation is, where it does more than
  compare two members (\<open>ArrayArenaMT::reset\<close>).
\<close>

definition indexed_assert :: "bool \<Rightarrow> bool \<Rightarrow> bool" where
  "indexed_assert dbg c = (if dbg then c else True)"

text \<open>
  The element type is documented as \<open>uint16_t\<close> or \<open>uint32_t\<close> (ArrayArenaMT asserts
  it statically).
\<close>

definition Index_ok :: "'a::len itself \<Rightarrow> bool" where
  "Index_ok t = (LENGTH('a) = 16 \<or> LENGTH('a) = 32)"

definition sizeof_Index :: "'a::len itself \<Rightarrow> size_t" where
  "sizeof_Index t = of_nat (LENGTH('a) div 8)"

section \<open>The buffer source (template parameter Alloc)\<close>

text \<open>
  NewAlloc, MmapAlloc and BufAlloc share one shape: \<open>malloc(bytes)\<close> either throws and
  leaves the held pointer as it is, or stores the start of a region; \<open>getPtr()\<close> returns the
  held pointer; \<open>free()\<close> drops it. Whether a request succeeds depends on the environment,
  so the source carries an oracle \<open>outcome\<close>: the result of the n-th call of \<open>malloc\<close> for
  a given byte count (\<open>None\<close>: \<open>std::bad_alloc\<close>). \<open>mallocCalls\<close> counts the calls made.
\<close>

record Alloc =
  m_ptr :: ptr
  outcome :: "nat \<Rightarrow> size_t \<Rightarrow> ptr option"
  mallocCalls :: nat

definition Alloc_malloc :: "'z Alloc_scheme \<Rightarrow> size_t \<Rightarrow> (failure + unit) \<times> 'z Alloc_scheme" where
  "Alloc_malloc al bytes =
     (case outcome al (mallocCalls al) bytes of
        None \<Rightarrow> (Inl bad_alloc, al\<lparr>mallocCalls := Suc (mallocCalls al)\<rparr>)
      | Some p \<Rightarrow> (Inr (), al\<lparr>m_ptr := p, mallocCalls := Suc (mallocCalls al)\<rparr>))"

definition getPtr :: "'z Alloc_scheme \<Rightarrow> ptr" where
  "getPtr al = m_ptr al"

definition Alloc_free :: "'z Alloc_scheme \<Rightarrow> 'z Alloc_scheme" where
  "Alloc_free al = al\<lparr>m_ptr := 0\<rparr>"

text \<open>BufAlloc: a caller-provided buffer; the request fails when it exceeds the buffer.\<close>

definition BufAlloc :: "ptr \<Rightarrow> size_t \<Rightarrow> Alloc" where
  "BufAlloc bufBegin bufSize =
     \<lparr>m_ptr = 0,
      outcome = (\<lambda>n bytes. if bytes > bufSize then None else Some bufBegin),
      mallocCalls = 0\<rparr>"

text \<open>
  A buffer source is sound when a successful \<open>malloc\<close> never leaves the null pointer
  behind (NewAlloc and MmapAlloc by construction, BufAlloc when it is given a buffer).
\<close>

definition source_ok :: "'z Alloc_scheme \<Rightarrow> bool" where
  "source_ok al = (\<forall>n bytes. outcome al n bytes \<noteq> Some 0)"

section \<open>ArrayArena: the single-threaded arena\<close>

text \<open>
  The class derives from Alloc, so the record extends the source's record. \<open>heap\<close> is the
  memory the arena reads and writes through \<open>Index*\<close>: the Index object stored at an
  address. With an element size that is a multiple of \<open>sizeof(Index)\<close>, as the debug build
  asserts when the buffer is acquired, slots start at multiples of \<open>sizeof(Index)\<close> from
  the buffer start, so two distinct addresses the arena uses never overlap. Links that a
  release build writes for any other element size overlap in memory; \<open>heap\<close> does not
  represent that.
\<close>

record (overloaded) 'a ArrayArena = Alloc +
  m_capacity :: "'a word"
  m_elementSizeInIndex :: "16 word"
  m_doDelete :: bool
  m_nextFree :: "'a word"
  m_allocatedCount :: "'a word"
  m_usedCapacity :: "'a word"
  heap :: "ptr \<Rightarrow> 'a word"

definition arena_begin :: "'a::len ArrayArena \<Rightarrow> ptr" where
  "arena_begin a = getPtr a"

definition elementSize :: "'a::len ArrayArena \<Rightarrow> size_t" where
  "elementSize a = ucast (m_elementSizeInIndex a) * sizeof_Index TYPE('a)"

definition arena_end :: "'a::len ArrayArena \<Rightarrow> ptr" where
  "arena_end a = arena_begin a + elementSize a * ucast (m_capacity a)"

text \<open>
  \<open>index - 1\<close> as the factor of a \<open>size_t\<close> product: an Index narrower than \<open>int\<close> is
  promoted, so the subtraction is signed and converts to \<open>size_t\<close> by sign extension; a
  32-bit Index wraps in 32 bits and is zero-extended. The two differ at index 0 only.
\<close>

definition index_minus_1 :: "'a::len word \<Rightarrow> size_t" where
  "index_minus_1 index = (if LENGTH('a) < 32 then ucast index - 1 else ucast (index - 1))"

definition getElementInt :: "bool \<Rightarrow> 'a::len ArrayArena \<Rightarrow> 'a word \<Rightarrow> size_t \<Rightarrow> failure + ptr" where
  "getElementInt dbg a index elemSize =
     (if \<not> indexed_assert dbg (index > 0 \<and> index \<le> m_usedCapacity a) then Inl assert_failed
      else Inr (arena_begin a + elemSize * index_minus_1 index))"

definition getElement :: "bool \<Rightarrow> 'a::len ArrayArena \<Rightarrow> 'a word \<Rightarrow> failure + ptr" where
  "getElement dbg a index = getElementInt dbg a index (elementSize a)"

definition enableDelete :: "'a::len ArrayArena \<Rightarrow> bool \<Rightarrow> 'a ArrayArena" where
  "enableDelete a enable = a\<lparr>m_doDelete := enable\<rparr>"

text \<open>\<open>1u << (sizeof(Index) * 8 - 1)\<close> is an \<open>unsigned int\<close>, widened for the comparison.\<close>

definition setCapacity :: "'a::len ArrayArena \<Rightarrow> size_t \<Rightarrow> (failure + unit) \<times> 'a ArrayArena" where
  "setCapacity a capacity =
     (if capacity \<ge> ucast (push_bit (unat (sizeof_Index TYPE('a)) * 8 - 1) (1 :: 32 word)) then
        (Inl length_error, a)
      else if arena_begin a \<noteq> 0 then (Inl runtime_error, a)
      else (Inr (), a\<lparr>m_capacity := ucast capacity\<rparr>))"

definition pointer_to :: "bool \<Rightarrow> 'a::len ArrayArena \<Rightarrow> ptr \<Rightarrow> failure + 'a word" where
  "pointer_to dbg a p =
     (let offset = p - arena_begin a :: size_t
      in if m_elementSizeInIndex a = 0 then Inl division_by_zero
         else
           let pos = ucast ((ucast (offset div sizeof_Index TYPE('a)) :: 32 word)
                              div ucast (m_elementSizeInIndex a)) :: 'a word
           in if \<not> indexed_assert dbg (elementSize a * ucast pos = offset) then Inl assert_failed
              else Inr (pos + 1))"

definition allocate :: "bool \<Rightarrow> 'a::len ArrayArena \<Rightarrow> size_t \<Rightarrow> (failure + 'a word) \<times> 'a ArrayArena" where
  "allocate dbg a typeSize =
     (if \<not> indexed_assert dbg (elementSize a = typeSize \<or> elementSize a = 0) then
        (Inl assert_failed, a)
      else if m_nextFree a \<noteq> 0 then
        (let index = m_nextFree a
         in case getElementInt dbg a index typeSize of
              Inl e \<Rightarrow> (Inl e, a)
            | Inr outPtr \<Rightarrow>
                (Inr index,
                 a\<lparr>m_nextFree := heap a outPtr, m_allocatedCount := m_allocatedCount a + 1\<rparr>))
      else if m_usedCapacity a = m_capacity a then (Inl bad_alloc, a)
      else
        (let r = (if arena_begin a = 0 then
                    (if \<not> indexed_assert dbg (typeSize mod sizeof_Index TYPE('a) = 0) then
                       (Inl assert_failed, a)
                     else
                       case Alloc_malloc a (typeSize * ucast (m_capacity a)) of
                         (Inl e, a') \<Rightarrow> (Inl e, a')
                       | (Inr u, a') \<Rightarrow>
                           (Inr u, a'\<lparr>m_elementSizeInIndex :=
                                         ucast (typeSize div sizeof_Index TYPE('a))\<rparr>))
                  else (Inr (), a))
         in case r of
              (Inl e, a') \<Rightarrow> (Inl e, a')
            | (Inr u, a') \<Rightarrow>
                (Inr (m_usedCapacity a' + 1),
                 a'\<lparr>m_usedCapacity := m_usedCapacity a' + 1,
                    m_allocatedCount := m_allocatedCount a' + 1\<rparr>)))"

definition reset :: "'a::len ArrayArena \<Rightarrow> 'a ArrayArena" where
  "reset a = a\<lparr>m_nextFree := 0, m_allocatedCount := 0, m_usedCapacity := 0\<rparr>"

definition deallocate :: "bool \<Rightarrow> 'a::len ArrayArena \<Rightarrow> 'a word \<Rightarrow> size_t \<Rightarrow> (failure + unit) \<times> 'a ArrayArena" where
  "deallocate dbg a index typeSize =
     (let a1 = a\<lparr>m_allocatedCount := m_allocatedCount a - 1\<rparr>
      in if m_allocatedCount a1 = 0 then (Inr (), reset a1)
         else if m_doDelete a1 then
           (case getElementInt dbg a1 index typeSize of
              Inl e \<Rightarrow> (Inl e, a1)
            | Inr p \<Rightarrow> (Inr (), a1\<lparr>m_nextFree := index, heap := (heap a1)(p := m_nextFree a1)\<rparr>))
         else (Inr (), a1))"

definition freeMemory :: "'a::len ArrayArena \<Rightarrow> 'a ArrayArena" where
  "freeMemory a = Alloc_free (reset (a\<lparr>m_elementSizeInIndex := 0\<rparr>))"

text \<open>The constructor: every member zero, then \<open>setCapacity(capacity)\<close>, which may throw.\<close>

definition ArrayArena :: "size_t \<Rightarrow> bool \<Rightarrow> Alloc \<Rightarrow> (failure + unit) \<times> 'a::len ArrayArena" where
  "ArrayArena capacity enableDel alloc =
     setCapacity
       (Alloc.extend alloc
          (ArrayArena.fields 0 0 enableDel 0 0 0 (\<lambda>p. 0)))
       capacity"

subsection \<open>The allocation algorithm as the specification words it\<close>

text \<open>
  Slot k occupies the bytes from \<open>(k - 1) * elementSize\<close> of the buffer. The algorithm:
  if the free head is not 0, pop it (the successor is read from the first bytes of the
  slot); else if \<open>usedCapacity < capacity\<close>, bump \<open>usedCapacity\<close> and return the new
  value; else fail with OutOfMemory, which is \<open>std::bad_alloc\<close>. A success increments
  \<open>allocatedCount\<close>.
\<close>

definition slot_address :: "'a::len ArrayArena \<Rightarrow> 'a word \<Rightarrow> ptr" where
  "slot_address a k = arena_begin a + ucast (k - 1) * elementSize a"

definition allocate_spec :: "'a::len ArrayArena \<Rightarrow> (failure + 'a word) \<times> 'a ArrayArena" where
  "allocate_spec a =
     (if m_nextFree a \<noteq> 0 then
        (Inr (m_nextFree a),
         a\<lparr>m_nextFree := heap a (slot_address a (m_nextFree a)),
           m_allocatedCount := m_allocatedCount a + 1\<rparr>)
      else if m_usedCapacity a < m_capacity a then
        (Inr (m_usedCapacity a + 1),
         a\<lparr>m_usedCapacity := m_usedCapacity a + 1,
           m_allocatedCount := m_allocatedCount a + 1\<rparr>)
      else (Inl bad_alloc, a))"

subsection \<open>The states an arena can be in\<close>

text \<open>
  The reachable states of the single-threaded arena start at the constructor over a sound
  source that holds nothing and are closed under every public member function, with any
  arguments, and under the client's writes to memory. \<open>capacity_inv\<close> is what all of them
  satisfy.
\<close>

inductive reachable :: "'a::len ArrayArena \<Rightarrow> bool" where
  constructed:
    "source_ok alloc \<Longrightarrow> m_ptr alloc = 0 \<Longrightarrow> ArrayArena capacity enableDel alloc = (Inr (), a)
     \<Longrightarrow> reachable a"
| after_setCapacity: "reachable a \<Longrightarrow> reachable (snd (setCapacity a capacity))"
| after_enableDelete: "reachable a \<Longrightarrow> reachable (enableDelete a enable)"
| after_allocate: "reachable a \<Longrightarrow> reachable (snd (allocate dbg a typeSize))"
| after_deallocate: "reachable a \<Longrightarrow> reachable (snd (deallocate dbg a index typeSize))"
| after_reset: "reachable a \<Longrightarrow> reachable (reset a)"
| after_freeMemory: "reachable a \<Longrightarrow> reachable (freeMemory a)"
| after_write: "reachable a \<Longrightarrow> reachable (a\<lparr>heap := m\<rparr>)"

definition capacity_inv :: "'a::len ArrayArena \<Rightarrow> bool" where
  "capacity_inv a =
     (source_ok a \<and> m_usedCapacity a \<le> m_capacity a
      \<and> (arena_begin a = 0 \<longrightarrow> m_usedCapacity a = 0))"

section \<open>ArrayArenaMT: the multi-threaded arena, one call at a time\<close>

text \<open>
  The model runs each call without interference from other threads, so every
  \<open>compare_exchange_strong\<close> of LockFreeSList succeeds in the first iteration of its loop and
  the mutex of allocateBuffer is free. \<open>DoubleWidth<Index>::type\<close> is the word type of
  twice the length, \<open>'a bit0 word\<close>. The members of the free list and of the arena are
  fields of one record; the names carry the suffix MT where ArrayArena has the same member.
\<close>

record (overloaded) 'a ArrayArenaMT = Alloc +
  m_capacityMT :: "'a word"
  m_elementSizeInIndexMT :: "16 word"
  m_doDeleteMT :: bool
  m_isAllocError :: bool
  m_head :: "'a bit0 word"
  m_usedCapacityMT :: "'a word"
  heapMT :: "ptr \<Rightarrow> 'a word"

definition kBits :: "'a::len itself \<Rightarrow> nat" where
  "kBits t = unat (sizeof_Index t) * 8"

definition toStamp :: "'a::len itself \<Rightarrow> 'a bit0 word \<Rightarrow> 'a bit0 word" where
  "toStamp t indexD = drop_bit (kBits t) indexD"

definition toDoubleIndex :: "'a::len word \<Rightarrow> 'a bit0 word \<Rightarrow> 'a bit0 word" where
  "toDoubleIndex index stamp = push_bit (kBits TYPE('a)) stamp OR ucast index"

definition beginMT :: "'a::len ArrayArenaMT \<Rightarrow> ptr" where
  "beginMT a = getPtr a"

definition elementSizeMT :: "'a::len ArrayArenaMT \<Rightarrow> size_t" where
  "elementSizeMT a = ucast (m_elementSizeInIndexMT a) * sizeof_Index TYPE('a)"

definition getElementIntMT :: "bool \<Rightarrow> 'a::len ArrayArenaMT \<Rightarrow> 'a word \<Rightarrow> size_t \<Rightarrow> failure + ptr" where
  "getElementIntMT dbg a index elemSize =
     (if \<not> indexed_assert dbg (index > 0 \<and> index \<le> m_usedCapacityMT a) then Inl assert_failed
      else Inr (beginMT a + elemSize * index_minus_1 index))"

definition getElementMT :: "bool \<Rightarrow> 'a::len ArrayArenaMT \<Rightarrow> 'a word \<Rightarrow> failure + ptr" where
  "getElementMT dbg a index = getElementIntMT dbg a index (elementSizeMT a)"

definition pull :: "bool \<Rightarrow> 'a::len ArrayArenaMT \<Rightarrow> (failure + 'a word) \<times> 'a ArrayArenaMT" where
  "pull dbg a =
     (let headD = m_head a; head = ucast headD :: 'a word
      in if head = 0 then (Inr 0, a)
         else case getElementMT dbg a head of
                Inl e \<Rightarrow> (Inl e, a)
              | Inr freeSlot \<Rightarrow>
                  (let futureHead = heapMT a freeSlot;
                       futureHeadD = toDoubleIndex futureHead (toStamp TYPE('a) headD + 1)
                   in (Inr head, a\<lparr>m_head := futureHeadD\<rparr>)))"

definition push :: "bool \<Rightarrow> 'a::len ArrayArenaMT \<Rightarrow> 'a word \<Rightarrow> (failure + unit) \<times> 'a ArrayArenaMT" where
  "push dbg a free =
     (case getElementMT dbg a free of
        Inl e \<Rightarrow> (Inl e, a)
      | Inr freeSlot \<Rightarrow>
          (let headD = m_head a;
               futureHeadD = toDoubleIndex free (toStamp TYPE('a) headD + 1)
           in (Inr (), a\<lparr>m_head := futureHeadD, heapMT := (heapMT a)(freeSlot := ucast headD)\<rparr>)))"

text \<open>
  \<open>LockFreeSList::listLength\<close>, the \<open>while\<close> loop and the function: the walk along the free
  list from the head handle to the handle 0. Every step reads the link of a slot through
  \<open>getElement\<close>, so the walk can end in the abort of \<open>getElement\<close>'s assertion or in the
  crash of a read through the null pointer (the address of every slot when no buffer is
  held and no element size is locked), and on a cyclic list it does not return (the
  value \<open>None\<close>).
\<close>

partial_function (option) listLength_loop ::
  "bool \<Rightarrow> 'a::len ArrayArenaMT \<Rightarrow> 'a word \<Rightarrow> 'a word \<Rightarrow> (failure + 'a word) option" where
  "listLength_loop dbg arena len next =
     (if next = 0 then Some (Inr len)
      else case getElementMT dbg arena next of
             Inl e \<Rightarrow> Some (Inl e)
           | Inr freeSlot \<Rightarrow>
               if freeSlot = 0 then Some (Inl segfault)
               else listLength_loop dbg arena (len + 1) (heapMT arena freeSlot))"

definition listLength :: "bool \<Rightarrow> 'a::len ArrayArenaMT \<Rightarrow> (failure + 'a word) option" where
  "listLength dbg arena = listLength_loop dbg arena 0 (ucast (m_head arena))"

definition enableDeleteMT :: "'a::len ArrayArenaMT \<Rightarrow> bool \<Rightarrow> 'a ArrayArenaMT" where
  "enableDeleteMT a enable = a\<lparr>m_doDeleteMT := enable\<rparr>"

definition setCapacityMT :: "'a::len ArrayArenaMT \<Rightarrow> size_t \<Rightarrow> (failure + unit) \<times> 'a ArrayArenaMT" where
  "setCapacityMT a capacity =
     (if capacity \<ge> ucast (push_bit (unat (sizeof_Index TYPE('a)) * 8 - 1) (1 :: 32 word)) then
        (Inl length_error, a)
      else if beginMT a \<noteq> 0 then (Inl runtime_error, a)
      else (Inr (), a\<lparr>m_capacityMT := ucast capacity\<rparr>))"

definition pointer_toMT :: "bool \<Rightarrow> 'a::len ArrayArenaMT \<Rightarrow> ptr \<Rightarrow> failure + 'a word" where
  "pointer_toMT dbg a p =
     (let offset = p - beginMT a :: size_t
      in if m_elementSizeInIndexMT a = 0 then Inl division_by_zero
         else
           let pos = ucast ((ucast (offset div sizeof_Index TYPE('a)) :: 32 word)
                              div ucast (m_elementSizeInIndexMT a)) :: 'a word
           in if \<not> indexed_assert dbg (elementSizeMT a * ucast pos = offset) then Inl assert_failed
              else Inr (pos + 1))"

definition allocateBuffer :: "bool \<Rightarrow> 'a::len ArrayArenaMT \<Rightarrow> size_t \<Rightarrow> (failure + unit) \<times> 'a ArrayArenaMT" where
  "allocateBuffer dbg a typeSize =
     (if m_isAllocError a then (Inl bad_alloc, a)
      else if beginMT a \<noteq> 0 then (Inr (), a)
      else if \<not> indexed_assert dbg (typeSize mod sizeof_Index TYPE('a) = 0) then
        (Inl assert_failed, a)
      else
        case Alloc_malloc a (typeSize * ucast (m_capacityMT a)) of
          (Inl e, a') \<Rightarrow> (Inl e, a'\<lparr>m_isAllocError := True\<rparr>)
        | (Inr u, a') \<Rightarrow>
            (let a'' = a'\<lparr>m_elementSizeInIndexMT := ucast (typeSize div sizeof_Index TYPE('a))\<rparr>
             in if \<not> indexed_assert dbg
                     (ucast (m_elementSizeInIndexMT a'') = typeSize div sizeof_Index TYPE('a))
                then (Inl assert_failed, a'')
                else (Inr (), a'')))"

text \<open>\<open>catch (const std::exception&)\<close> sees the thrown exceptions, not an abort or a trap.\<close>

fun is_exception :: "failure \<Rightarrow> bool" where
  "is_exception bad_alloc = True"
| "is_exception length_error = True"
| "is_exception runtime_error = True"
| "is_exception assert_failed = False"
| "is_exception division_by_zero = False"
| "is_exception segfault = False"

definition allocateMT :: "bool \<Rightarrow> 'a::len ArrayArenaMT \<Rightarrow> size_t \<Rightarrow> (failure + 'a word) \<times> 'a ArrayArenaMT" where
  "allocateMT dbg a typeSize =
     (if \<not> indexed_assert dbg (elementSizeMT a = 0 \<or> elementSizeMT a = typeSize) then
        (Inl assert_failed, a)
      else
        case pull dbg a of
          (Inl e, a1) \<Rightarrow> (Inl e, a1)
        | (Inr index, a1) \<Rightarrow>
            if index = 0 then
              (let futureCapacity = m_usedCapacityMT a1 + 1;
                   a2 = a1\<lparr>m_usedCapacityMT := futureCapacity\<rparr>
               in if futureCapacity > m_capacityMT a2 then
                    (Inl bad_alloc, a2\<lparr>m_usedCapacityMT := m_usedCapacityMT a2 - 1\<rparr>)
                  else if beginMT a2 = 0 then
                    (case allocateBuffer dbg a2 typeSize of
                       (Inl e, a3) \<Rightarrow>
                         if is_exception e then
                           (Inl e, a3\<lparr>m_usedCapacityMT := m_usedCapacityMT a3 - 1\<rparr>)
                         else (Inl e, a3)
                     | (Inr u, a3) \<Rightarrow> (Inr futureCapacity, a3))
                  else (Inr futureCapacity, a2))
            else (Inr index, a1))"

definition deallocateMT :: "bool \<Rightarrow> 'a::len ArrayArenaMT \<Rightarrow> 'a word \<Rightarrow> size_t \<Rightarrow> (failure + unit) \<times> 'a ArrayArenaMT" where
  "deallocateMT dbg a index typeSize = (if m_doDeleteMT a then push dbg a index else (Inr (), a))"

text \<open>
  \<open>reset()\<close> opens with \<open>indexed_warning(m_usedCapacity == m_freeList.listLength(*this))\<close>:
  a debug build walks the free list before it resets it, and a walk that crashes or does
  not return takes \<open>reset()\<close> with it. What the comparison yields decides only whether the
  warning is printed. \<open>freeMemory()\<close> calls \<open>reset()\<close> last, after it has dropped the buffer
  and the element size.
\<close>

definition resetMT :: "bool \<Rightarrow> 'a::len ArrayArenaMT \<Rightarrow> ((failure + unit) \<times> 'a ArrayArenaMT) option" where
  "resetMT dbg a =
     (if dbg then
        (case listLength dbg a of
           None \<Rightarrow> None
         | Some (Inl e) \<Rightarrow> Some (Inl e, a)
         | Some (Inr len) \<Rightarrow> Some (Inr (), a\<lparr>m_head := 0, m_usedCapacityMT := 0\<rparr>))
      else Some (Inr (), a\<lparr>m_head := 0, m_usedCapacityMT := 0\<rparr>))"

definition freeMemoryMT :: "bool \<Rightarrow> 'a::len ArrayArenaMT \<Rightarrow> ((failure + unit) \<times> 'a ArrayArenaMT) option" where
  "freeMemoryMT dbg a =
     resetMT dbg ((Alloc_free a)\<lparr>m_elementSizeInIndexMT := 0, m_isAllocError := False\<rparr>)"

definition ArrayArenaMT :: "size_t \<Rightarrow> bool \<Rightarrow> Alloc \<Rightarrow> (failure + unit) \<times> 'a::len ArrayArenaMT" where
  "ArrayArenaMT capacity enableDel alloc =
     setCapacityMT
       (Alloc.extend alloc
          (ArrayArenaMT.fields 0 0 enableDel False 0 0 (\<lambda>p. 0)))
       capacity"

subsection \<open>Sequences of calls and the latched state\<close>

text \<open>
  The calls a client can make on an arena whose buffer was never acquired, short of
  \<open>freeMemory\<close>: there is no handle to deallocate. \<open>run_calls\<close> makes them in order and
  collects the outcome of every \<open>allocate\<close>; a \<open>reset\<close> that crashes or does not return
  ends the run.
\<close>

datatype mt_call = Allocate size_t | SetCapacity size_t | EnableDelete bool | Reset

fun run_calls :: "bool \<Rightarrow> 'a::len ArrayArenaMT \<Rightarrow> mt_call list \<Rightarrow> (failure + 'a word) list \<times> 'a ArrayArenaMT" where
  "run_calls dbg a [] = ([], a)"
| "run_calls dbg a (Allocate typeSize # cs) =
     (case allocateMT dbg a typeSize of
        (r, a') \<Rightarrow> (case run_calls dbg a' cs of (rs, a'') \<Rightarrow> (r # rs, a'')))"
| "run_calls dbg a (SetCapacity n # cs) = run_calls dbg (snd (setCapacityMT a n)) cs"
| "run_calls dbg a (EnableDelete b # cs) = run_calls dbg (enableDeleteMT a b) cs"
| "run_calls dbg a (Reset # cs) =
     (case resetMT dbg a of
        Some (Inr u, a') \<Rightarrow> run_calls dbg a' cs
      | _ \<Rightarrow> ([], a))"

fun is_Allocate :: "mt_call \<Rightarrow> bool" where
  "is_Allocate (Allocate typeSize) = True"
| "is_Allocate (SetCapacity n) = False"
| "is_Allocate (EnableDelete b) = False"
| "is_Allocate Reset = False"

text \<open>
  The state in which the buffer acquisition has failed for good: the error flag is set,
  no buffer is held and the free list is empty.
\<close>

definition latched :: "'a::len ArrayArenaMT \<Rightarrow> bool" where
  "latched s = (m_isAllocError s \<and> beginMT s = 0 \<and> (ucast (m_head s) :: 'a word) = 0)"

section \<open>The arena configurations: handles and addresses\<close>

text \<open>
  A configuration holds static members: a pointer to the arena, the stack top and, in the
  universal variant, the container. The functions below only read the arena, so the
  record holds the state of the arena pointed to. \<open>kNodeAlignment\<close> and \<open>kObjectSize\<close> are
  template parameters and become arguments. \<open>ptrdiff_t\<close> values are words read with
  \<open>sint\<close>.
\<close>

record (overloaded) 'a ConfigStore =
  arena :: "'a ArrayArena"
  stackTop :: ptr

record (overloaded) 'a ConfigStoreUniversal = "'a ConfigStore" +
  container :: ptr

definition kOnStackFlag :: "'a::len itself \<Rightarrow> 'a word" where
  "kOnStackFlag t = ucast (push_bit (unat (sizeof_Index t) * 8 - 1) (1 :: 32 word))"

definition kContainerFlag :: "'a::len itself \<Rightarrow> 'a word" where
  "kContainerFlag t = ucast (push_bit (unat (sizeof_Index t) * 8 - 2) (1 :: 32 word))"

definition kMaxStackSize :: "64 word" where
  "kMaxStackSize = 2 * 1024 * 1024"

definition setArena :: "('a::len, 'z) ConfigStore_scheme \<Rightarrow> 'a ArrayArena \<Rightarrow> ('a, 'z) ConfigStore_scheme" where
  "setArena cfg arenaPtr = cfg\<lparr>arena := arenaPtr\<rparr>"

definition setStackTop :: "('a::len, 'z) ConfigStore_scheme \<Rightarrow> ptr \<Rightarrow> ('a, 'z) ConfigStore_scheme" where
  "setStackTop cfg stackTopPtr = cfg\<lparr>stackTop := stackTopPtr\<rparr>"

definition setContainer :: "'a::len ConfigStoreUniversal \<Rightarrow> ptr \<Rightarrow> 'a ConfigStoreUniversal" where
  "setContainer cfg containerPtr = cfg\<lparr>container := containerPtr\<rparr>"

subsection \<open>SingleArenaConfig (one flag bit)\<close>

definition SingleArenaConfig_getElement ::
  "bool \<Rightarrow> size_t \<Rightarrow> 'a::len ConfigStore \<Rightarrow> 'a word \<Rightarrow> failure + ptr" where
  "SingleArenaConfig_getElement dbg kNodeAlignment cfg index =
     (if index AND kOnStackFlag TYPE('a) \<noteq> 0 then
        Inr (stackTop cfg - kNodeAlignment * ucast (index XOR kOnStackFlag TYPE('a)))
      else getElement dbg (arena cfg) index)"

definition SingleArenaConfig_pointer_to ::
  "bool \<Rightarrow> size_t \<Rightarrow> 'a::len ConfigStore \<Rightarrow> ptr \<Rightarrow> failure + 'a word" where
  "SingleArenaConfig_pointer_to dbg kNodeAlignment cfg p =
     (let stackOffset = stackTop cfg - p
      in if 0 \<le> sint stackOffset \<and> sint stackOffset < sint kMaxStackSize then
           (if kNodeAlignment = 0 then Inl division_by_zero
            else
              let offset = stackOffset div kNodeAlignment
              in if \<not> indexed_assert dbg (offset < ucast (kOnStackFlag TYPE('a))) then
                   Inl assert_failed
                 else if \<not> indexed_assert dbg (offset * kNodeAlignment = stackOffset) then
                   Inl assert_failed
                 else Inr (ucast offset OR kOnStackFlag TYPE('a)))
         else pointer_to dbg (arena cfg) p)"

subsection \<open>SingleArenaConfigUniversal (two flag bits)\<close>

definition SingleArenaConfigUniversal_getElement ::
  "bool \<Rightarrow> size_t \<Rightarrow> 'a::len ConfigStoreUniversal \<Rightarrow> 'a word \<Rightarrow> failure + ptr" where
  "SingleArenaConfigUniversal_getElement dbg kNodeAlignment cfg index =
     (if index AND (kContainerFlag TYPE('a) OR kOnStackFlag TYPE('a)) = 0 then
        getElement dbg (arena cfg) index
      else if index AND kOnStackFlag TYPE('a) \<noteq> 0 then
        Inr (stackTop cfg - kNodeAlignment * ucast (index XOR kOnStackFlag TYPE('a)))
      else Inr (container cfg + ucast (index XOR kContainerFlag TYPE('a))))"

definition SingleArenaConfigUniversal_pointer_to ::
  "bool \<Rightarrow> size_t \<Rightarrow> size_t \<Rightarrow> 'a::len ConfigStoreUniversal \<Rightarrow> ptr \<Rightarrow> failure + 'a word" where
  "SingleArenaConfigUniversal_pointer_to dbg kObjectSize kNodeAlignment cfg p =
     (if kObjectSize = 0 \<and> p \<ge> arena_begin (arena cfg) \<and> p < arena_end (arena cfg) then
        pointer_to dbg (arena cfg) p
      else
        let stackOffset = stackTop cfg - p
        in if 0 \<le> sint stackOffset \<and> sint stackOffset < sint kMaxStackSize then
             (if kNodeAlignment = 0 then Inl division_by_zero
              else
                let offset = stackOffset div kNodeAlignment
                in if \<not> indexed_assert dbg (offset < ucast (kOnStackFlag TYPE('a))) then
                     Inl assert_failed
                   else if \<not> indexed_assert dbg (offset * kNodeAlignment = stackOffset) then
                     Inl assert_failed
                   else Inr (ucast offset OR kOnStackFlag TYPE('a)))
           else
             let containerOffset = p - container cfg
             in if kObjectSize = 0 then
                  (if \<not> indexed_assert dbg (0 \<le> sint containerOffset \<and> sint containerOffset < 256)
                   then Inl assert_failed
                   else Inr (ucast containerOffset OR kContainerFlag TYPE('a)))
                else if 0 \<le> sint containerOffset \<and> sint containerOffset < sint kObjectSize then
                  Inr (ucast containerOffset OR kContainerFlag TYPE('a))
                else pointer_to dbg (arena cfg) p)"

section \<open>Concrete arenas and configurations\<close>

text \<open>
  A 16-bit arena of capacity 4 over a 64-byte buffer at address 0x1000, after three
  allocations of 8 bytes and the deallocation of handle 2.
\<close>

definition arena16 :: "16 ArrayArena" where
  "arena16 =
     \<lparr>m_ptr = 0x1000,
      outcome = (\<lambda>n bytes. if bytes > 64 then None else Some 0x1000),
      mallocCalls = 1,
      m_capacity = 4, m_elementSizeInIndex = 4, m_doDelete = True, m_nextFree = 2,
      m_allocatedCount = 2, m_usedCapacity = 3, heap = (\<lambda>p. 0)\<rparr>"

text \<open>
  The same arena after handle 1 was deallocated too: one live slot, two on the free list.
\<close>

definition arena16_last :: "16 ArrayArena" where
  "arena16_last = arena16\<lparr>m_nextFree := 1, m_allocatedCount := 1, heap := (\<lambda>p. 0)(0x1000 := 2)\<rparr>"

text \<open>
  Deletion disabled from the start: three allocations, one deallocation, nothing on the
  free list.
\<close>

definition arena16_bump :: "16 ArrayArena" where
  "arena16_bump = arena16\<lparr>m_doDelete := False, m_nextFree := 0\<rparr>"

text \<open>The same arena after one more allocation: all four slots handed out.\<close>

definition arena16_full :: "16 ArrayArena" where
  "arena16_full = arena16_bump\<lparr>m_allocatedCount := 3, m_usedCapacity := 4\<rparr>"

text \<open>A 16-bit arena of capacity \<open>2 ^ 14\<close>, built by the constructor.\<close>

definition arena16_big :: "16 ArrayArena" where
  "arena16_big = snd (ArrayArena 16384 True (BufAlloc 0x10000 0x20000))"

text \<open>The same arena after \<open>2 ^ 14 - 1\<close> allocations of 8 bytes, none freed.\<close>

definition arena16_almost_full :: "16 ArrayArena" where
  "arena16_almost_full =
     \<lparr>m_ptr = 0x10000,
      outcome = (\<lambda>n bytes. if bytes > 0x20000 then None else Some 0x10000),
      mallocCalls = 1,
      m_capacity = 16384, m_elementSizeInIndex = 4, m_doDelete = True, m_nextFree = 0,
      m_allocatedCount = 16383, m_usedCapacity = 16383, heap = (\<lambda>p. 0)\<rparr>"

text \<open>The arena of \<open>arena16\<close> with its buffer on the stack, 256 bytes below the stack top.\<close>

definition arena16_on_stack :: "16 ArrayArena" where
  "arena16_on_stack = arena16\<lparr>m_ptr := 0x7ffffe00\<rparr>"

text \<open>
  A fresh 32-bit arena of capacity 10 over a caller-provided buffer of 16 MiB.
\<close>

definition arena32_fresh :: "32 ArrayArena" where
  "arena32_fresh = snd (ArrayArena 10 True (BufAlloc 0x100000 0x1000000))"

text \<open>
  A 32-bit arena of 4096-byte elements (1024 index words), capacity \<open>2 ^ 22 + 1\<close>, with
  every slot handed out: the buffer spans 16 GiB from address \<open>0x100000000\<close>.
\<close>

definition arena32_large :: "32 ArrayArena" where
  "arena32_large =
     \<lparr>m_ptr = 0x100000000,
      outcome = (\<lambda>n bytes. Some 0x100000000),
      mallocCalls = 1,
      m_capacity = 4194305, m_elementSizeInIndex = 1024, m_doDelete = True, m_nextFree = 0,
      m_allocatedCount = 4194305, m_usedCapacity = 4194305, heap = (\<lambda>p. 0)\<rparr>"

text \<open>
  A 16-bit multi-threaded arena with deletion disabled, three slots handed out.
\<close>

definition arenaMT16 :: "16 ArrayArenaMT" where
  "arenaMT16 =
     \<lparr>m_ptr = 0x1000,
      outcome = (\<lambda>n bytes. if bytes > 64 then None else Some 0x1000),
      mallocCalls = 1,
      m_capacityMT = 4, m_elementSizeInIndexMT = 4, m_doDeleteMT = False,
      m_isAllocError = False, m_head = 0, m_usedCapacityMT = 3, heapMT = (\<lambda>p. 0)\<rparr>"

text \<open>
  A 16-bit multi-threaded arena of capacity 4 over a caller-provided buffer of 16 bytes,
  too small for four elements of 8 bytes.
\<close>

definition arenaMT16_small :: "16 ArrayArenaMT" where
  "arenaMT16_small = snd (ArrayArenaMT 4 True (BufAlloc 0x1000 16))"

text \<open>
  A 16-bit multi-threaded arena whose buffer source failed at its first call and will
  succeed from the second on; the state is the one after that first, failed allocation.
\<close>

definition arenaMT16_failed :: "16 ArrayArenaMT" where
  "arenaMT16_failed =
     \<lparr>m_ptr = 0,
      outcome = (\<lambda>n bytes. if n = 0 then None else Some 0x1000),
      mallocCalls = 1,
      m_capacityMT = 4, m_elementSizeInIndexMT = 0, m_doDeleteMT = True,
      m_isAllocError = True, m_head = 0, m_usedCapacityMT = 0, heapMT = (\<lambda>p. 0)\<rparr>"

text \<open>
  A 16-bit multi-threaded arena with deletion enabled: two slots of 8 bytes were handed
  out and slot 1 was given back, so the free list holds one slot.
\<close>

definition arenaMT16_freed :: "16 ArrayArenaMT" where
  "arenaMT16_freed =
     \<lparr>m_ptr = 0x1000,
      outcome = (\<lambda>n bytes. if bytes > 64 then None else Some 0x1000),
      mallocCalls = 1,
      m_capacityMT = 4, m_elementSizeInIndexMT = 4, m_doDeleteMT = True,
      m_isAllocError = False, m_head = 0x10001, m_usedCapacityMT = 2, heapMT = (\<lambda>p. 0)\<rparr>"

text \<open>
  A universal configuration for 16-bit handles over the arena at 0x1000, with the stack
  top at \<open>0x7fffff00\<close>.
\<close>

definition universal16 :: "16 ConfigStoreUniversal" where
  "universal16 = \<lparr>arena = arena16, stackTop = 0x7fffff00, container = 0x5000\<rparr>"

text \<open>A simple configuration over the arena on the stack.\<close>

definition simple16 :: "16 ConfigStore" where
  "simple16 = \<lparr>arena = arena16_on_stack, stackTop = 0x7fffff00\<rparr>"

text \<open>A simple configuration over the arena at 0x1000, far from the stack.\<close>

definition simple16_heap :: "16 ConfigStore" where
  "simple16_heap = \<lparr>arena = arena16, stackTop = 0x7fffff00\<rparr>"

section \<open>Facts about words\<close>

lemma unat_ucast_mod:
  "unat (ucast (w :: 'a::len word) :: 'b::len word) = unat w mod 2 ^ LENGTH('b)"
  by (simp add: unsigned_ucast_eq take_bit_eq_mod)

lemma unat_ucast_up:
  fixes w :: "'a::len word"
  assumes "LENGTH('a) \<le> LENGTH('b::len)"
  shows "unat (ucast w :: 'b word) = unat w"
proof -
  have "(2::nat) ^ LENGTH('a) \<le> 2 ^ LENGTH('b)"
    using assms by (rule power_increasing) simp
  then have "unat w < 2 ^ LENGTH('b)"
    using unsigned_less [of w, where ?'a = nat] by linarith
  then show ?thesis by (simp add: unat_ucast_mod)
qed

lemma unat_mult_le: "unat (x * y) \<le> unat x * unat (y :: 'a::len word)"
  by (simp add: unat_word_ariths)

lemma ucast_minus_1:
  fixes index :: "'a::len word"
  assumes nz: "index \<noteq> 0" and le: "LENGTH('a) \<le> 64"
  shows "(ucast index :: 64 word) - 1 = ucast (index - 1)"
proof -
  have "(2::nat) ^ LENGTH('a) \<le> 2 ^ 64"
    using le by (rule power_increasing) simp
  then have lt: "unat index < 2 ^ 64"
    using unsigned_less [of index, where ?'a = nat] by linarith
  have u0: "unat (ucast index :: 64 word) = unat index"
    using lt by (simp add: unat_ucast_mod)
  have nz': "(ucast index :: 64 word) \<noteq> 0"
    using u0 nz by (metis unat_0_iff)
  have l: "unat ((ucast index :: 64 word) - 1) = unat index - 1"
    using nz' u0 by (simp add: unat_minus_one)
  have lt2: "unat (index - 1) < 2 ^ 64"
    using lt nz by (simp add: unat_minus_one)
  have r: "unat (ucast (index - 1) :: 64 word) = unat index - 1"
    using lt2 nz by (simp add: unat_ucast_mod unat_minus_one)
  show ?thesis
    using l r by (simp add: word_unat_eq_iff)
qed

lemma index_minus_1_eq:
  "index \<noteq> 0 \<Longrightarrow> LENGTH('a) \<le> 64 \<Longrightarrow> index_minus_1 (index :: 'a::len word) = ucast (index - 1)"
  by (simp add: index_minus_1_def ucast_minus_1)

lemma small_word_flag_clear:
  fixes h :: "'a::len word"
  assumes "unat h < 2 ^ n"
  shows "h AND 2 ^ n = 0"
proof -
  have "\<not> bit (unat h) n"
    using assms by (simp add: bit_iff_odd)
  then have "\<not> bit h n" by (simp add: bit_unsigned_iff)
  then show ?thesis
    by (simp add: and_exp_eq_0_iff_not_bit)
qed

lemma nat_position_exact:
  fixes n k s :: nat
  assumes "0 < n" "0 < s" "n * k < 2 ^ 32"
  shows "n * k * s div s mod 2 ^ 32 div n = k"
proof -
  have "n * k * s div s = n * k" using assms(2) by simp
  moreover have "n * k mod 2 ^ 32 = n * k" using assms(3) by simp
  moreover have "n * k div n = k" using assms(1) by simp
  ultimately show ?thesis by simp
qed

lemma nat_extent_bound:
  fixes n k s :: nat
  assumes "s = 2 \<or> s = 4" "n * k < 2 ^ 32"
  shows "k * (n * s) < 2 ^ 64"
proof -
  have "n * k * s \<le> n * k * 4" using assms(1) by auto
  also have "\<dots> < 2 ^ 32 * 4" using assms(2) by (simp add: mult.commute)
  finally have "n * k * s < 2 ^ 64" by simp
  then show ?thesis by (simp add: ac_simps)
qed

subsection \<open>The constants of the index type\<close>

lemma unat_sizeof_Index:
  "Index_ok TYPE('a::len) \<Longrightarrow> unat (sizeof_Index TYPE('a)) = LENGTH('a) div 8"
  by (auto simp: Index_ok_def sizeof_Index_def)

lemma sizeof_Index_cases:
  "Index_ok TYPE('a::len) \<Longrightarrow> LENGTH('a) div 8 = 2 \<or> LENGTH('a) div 8 = 4"
  by (auto simp: Index_ok_def)

lemma capacity_bound_value:
  assumes "Index_ok TYPE('a::len)"
  shows "(ucast (push_bit (unat (sizeof_Index TYPE('a)) * 8 - 1) (1 :: 32 word)) :: 64 word)
         = 2 ^ (LENGTH('a) - 1)"
  using assms by (auto simp: Index_ok_def sizeof_Index_def)

lemma capacity_bound_unat:
  assumes "Index_ok TYPE('a::len)"
  shows "(ucast (push_bit (unat (sizeof_Index TYPE('a)) * 8 - 1) (1 :: 32 word)) \<le> (n :: 64 word))
         \<longleftrightarrow> 2 ^ (LENGTH('a) - 1) \<le> unat n"
proof -
  have "unat ((2 :: 64 word) ^ (LENGTH('a) - 1)) = 2 ^ (LENGTH('a) - 1)"
    using assms by (auto simp: Index_ok_def)
  then have "((2 :: 64 word) ^ (LENGTH('a) - 1) \<le> n) \<longleftrightarrow> 2 ^ (LENGTH('a) - 1) \<le> unat n"
    by (simp only: word_le_nat_alt)
  then show ?thesis
    by (simp only: capacity_bound_value [OF assms])
qed

lemma kOnStackFlag_value:
  "Index_ok TYPE('a::len) \<Longrightarrow> kOnStackFlag TYPE('a) = 2 ^ (LENGTH('a) - 1)"
  by (auto simp: Index_ok_def kOnStackFlag_def sizeof_Index_def)

lemma unat_elementSize_of_count:
  fixes n :: "16 word"
  assumes idx: "Index_ok TYPE('a::len)"
  shows "unat ((ucast n :: size_t) * sizeof_Index TYPE('a)) = unat n * (LENGTH('a) div 8)"
proof -
  have n: "unat n < 2 ^ 16" using unsigned_less [of n, where ?'a = nat] by simp
  have u: "unat (ucast n :: size_t) = unat n"
    using n by (simp add: unat_ucast_mod)
  have "unat n * (LENGTH('a) div 8) < 2 ^ 64"
    using n sizeof_Index_cases [OF idx] by auto
  then have "unat (ucast n :: size_t) * unat (sizeof_Index TYPE('a)) < 2 ^ LENGTH(64)"
    using u unat_sizeof_Index [OF idx] by simp
  then have "unat ((ucast n :: size_t) * sizeof_Index TYPE('a))
             = unat (ucast n :: size_t) * unat (sizeof_Index TYPE('a))"
    by (simp only: unat_mult_lem)
  then show ?thesis using u unat_sizeof_Index [OF idx] by simp
qed

lemma unat_elementSize:
  fixes a :: "'a::len ArrayArena"
  assumes "Index_ok TYPE('a)"
  shows "unat (elementSize a) = unat (m_elementSizeInIndex a) * (LENGTH('a) div 8)"
  by (simp add: elementSize_def unat_elementSize_of_count [OF assms])

lemma unat_stored_count:
  fixes typeSize :: size_t
  assumes idx: "Index_ok TYPE('a::len)"
  shows "unat (ucast (typeSize div sizeof_Index TYPE('a)) :: 16 word)
         = (unat typeSize div (LENGTH('a) div 8)) mod 2 ^ 16"
  by (simp add: unat_ucast_mod unat_div unat_sizeof_Index [OF idx])

lemma unat_position:
  fixes offset :: size_t and n :: "16 word"
  assumes idx: "Index_ok TYPE('a::len)"
  shows "unat (ucast ((ucast (offset div sizeof_Index TYPE('a)) :: 32 word) div ucast n) :: 'a word)
         = (unat offset div (LENGTH('a) div 8)) mod 2 ^ 32 div unat n mod 2 ^ LENGTH('a)"
proof -
  have "unat n < 2 ^ 16" using unsigned_less [of n, where ?'a = nat] by simp
  then have n: "unat n mod 4294967296 = unat n" by simp
  show ?thesis
    by (simp add: unat_ucast_mod unat_div n unat_sizeof_Index [OF idx])
qed

section \<open>The capacity invariant of the single-threaded arena\<close>

lemma capacity_inv_allocate:
  fixes a :: "'a::len ArrayArena"
  assumes "capacity_inv a"
  shows "capacity_inv (snd (allocate dbg a typeSize))"
proof -
  have bump: "m_usedCapacity a + 1 \<le> m_capacity a" if "m_usedCapacity a \<noteq> m_capacity a"
  proof -
    have "m_usedCapacity a < m_capacity a"
      using that assms by (auto simp: capacity_inv_def word_le_less_eq)
    then show ?thesis by (rule inc_le)
  qed
  show ?thesis
    using assms bump
    by (auto simp: allocate_def capacity_inv_def source_ok_def Alloc_malloc_def Let_def
        arena_begin_def getPtr_def split: if_splits sum.splits option.splits)
qed

lemma capacity_inv_reachable:
  "reachable a \<Longrightarrow> capacity_inv a"
proof (induction rule: reachable.induct)
  case (constructed alloc capacity enableDel a)
  then show ?case
    by (auto simp: ArrayArena_def setCapacity_def capacity_inv_def source_ok_def
        arena_begin_def getPtr_def Alloc.extend_def ArrayArena.fields_def split: if_splits)
next
  case (after_setCapacity a capacity)
  then show ?case
    by (auto simp: setCapacity_def capacity_inv_def source_ok_def arena_begin_def getPtr_def)
next
  case (after_enableDelete a enable)
  then show ?case
    by (simp add: enableDelete_def capacity_inv_def source_ok_def arena_begin_def getPtr_def)
next
  case (after_allocate a dbg typeSize)
  then show ?case by (simp add: capacity_inv_allocate)
next
  case (after_deallocate a dbg index typeSize)
  then show ?case
    by (auto simp: deallocate_def reset_def capacity_inv_def source_ok_def arena_begin_def
        getPtr_def Let_def split: sum.splits)
next
  case (after_reset a)
  then show ?case
    by (simp add: reset_def capacity_inv_def source_ok_def arena_begin_def getPtr_def)
next
  case (after_freeMemory a)
  then show ?case
    by (simp add: freeMemory_def reset_def Alloc_free_def capacity_inv_def source_ok_def
        arena_begin_def getPtr_def)
next
  case (after_write a m)
  then show ?case
    by (simp add: capacity_inv_def source_ok_def arena_begin_def getPtr_def)
qed

lemma reachable_usedCapacity_le:
  "reachable a \<Longrightarrow> m_usedCapacity a \<le> m_capacity a"
  using capacity_inv_reachable [of a] by (simp add: capacity_inv_def)

section \<open>The concrete arenas are states of the code\<close>

lemma arena16_is_reached:
  "deallocate True
     (snd (allocate True (snd (allocate True (snd (allocate True
        (snd (ArrayArena 4 True (BufAlloc 0x1000 64))) 8)) 8)) 8)) 2 8
   = (Inr (), arena16)"
proof -
  let ?a0 = "\<lparr>m_ptr = 0, outcome = (\<lambda>n bytes. if bytes > 64 then None else Some 0x1000),
      mallocCalls = 0, m_capacity = 4, m_elementSizeInIndex = 0, m_doDelete = True,
      m_nextFree = 0, m_allocatedCount = 0, m_usedCapacity = 0, heap = (\<lambda>p. 0)\<rparr>
      :: 16 ArrayArena"
  let ?a1 = "?a0\<lparr>m_ptr := 0x1000, mallocCalls := 1, m_elementSizeInIndex := 4,
      m_allocatedCount := 1, m_usedCapacity := 1\<rparr>"
  let ?a2 = "?a1\<lparr>m_allocatedCount := 2, m_usedCapacity := 2\<rparr>"
  let ?a3 = "?a2\<lparr>m_allocatedCount := 3, m_usedCapacity := 3\<rparr>"
  have 0: "snd (ArrayArena 4 True (BufAlloc 0x1000 64)) = ?a0"
    by (simp add: ArrayArena_def setCapacity_def BufAlloc_def sizeof_Index_def arena_begin_def
        getPtr_def Alloc.extend_def ArrayArena.fields_def)
  have 1: "snd (allocate True ?a0 8) = ?a1"
    by (simp add: allocate_def indexed_assert_def elementSize_def sizeof_Index_def
        arena_begin_def getPtr_def Alloc_malloc_def Let_def)
  have 2: "snd (allocate True ?a1 8) = ?a2"
    by (simp add: allocate_def indexed_assert_def elementSize_def sizeof_Index_def
        arena_begin_def getPtr_def Let_def)
  have 3: "snd (allocate True ?a2 8) = ?a3"
    by (simp add: allocate_def indexed_assert_def elementSize_def sizeof_Index_def
        arena_begin_def getPtr_def Let_def)
  have 4: "deallocate True ?a3 2 8 = (Inr (), arena16)"
    by (simp add: deallocate_def getElementInt_def indexed_assert_def index_minus_1_def
        arena_begin_def getPtr_def arena16_def Let_def fun_upd_idem)
  show ?thesis
    by (simp only: 0 1 2 3 4)
qed

lemma arena16_reachable: "reachable arena16"
proof -
  have s: "source_ok (BufAlloc 0x1000 64)" "m_ptr (BufAlloc 0x1000 64) = 0"
    by (simp_all add: source_ok_def BufAlloc_def)
  have c: "(ArrayArena 4 True (BufAlloc 0x1000 64) :: (failure + unit) \<times> 16 ArrayArena)
           = (Inr (), snd (ArrayArena 4 True (BufAlloc 0x1000 64)))"
    by (simp add: ArrayArena_def setCapacity_def BufAlloc_def sizeof_Index_def arena_begin_def
        getPtr_def Alloc.extend_def ArrayArena.fields_def)
  have "reachable (snd (ArrayArena 4 True (BufAlloc 0x1000 64)) :: 16 ArrayArena)"
    by (rule reachable.constructed [OF s c])
  then have "reachable (snd (deallocate True
     (snd (allocate True (snd (allocate True (snd (allocate True
        (snd (ArrayArena 4 True (BufAlloc 0x1000 64)) :: 16 ArrayArena) 8)) 8)) 8)) 2 8))"
    by (intro reachable.after_deallocate reachable.after_allocate)
  then show ?thesis by (simp only: arena16_is_reached snd_conv)
qed

lemma arenaMT16_failed_is_reached:
  "allocateMT True
     (snd (ArrayArenaMT 4 True
        \<lparr>m_ptr = 0, outcome = (\<lambda>n bytes. if n = 0 then None else Some 0x1000),
         mallocCalls = 0\<rparr>)) 8
   = (Inl bad_alloc, arenaMT16_failed)"
  by (simp add: ArrayArenaMT_def setCapacityMT_def sizeof_Index_def beginMT_def getPtr_def
      Alloc.extend_def ArrayArenaMT.fields_def allocateMT_def pull_def allocateBuffer_def
      Alloc_malloc_def indexed_assert_def elementSizeMT_def arenaMT16_failed_def Let_def)

lemma arenaMT16_freed_is_reached:
  "deallocateMT True
     (snd (allocateMT True
        (snd (allocateMT True (snd (ArrayArenaMT 4 True (BufAlloc 0x1000 64))) 8)) 8)) 1 8
   = (Inr (), arenaMT16_freed)"
  by (simp add: ArrayArenaMT_def setCapacityMT_def BufAlloc_def sizeof_Index_def beginMT_def
      getPtr_def Alloc.extend_def ArrayArenaMT.fields_def allocateMT_def pull_def
      allocateBuffer_def Alloc_malloc_def indexed_assert_def elementSizeMT_def
      deallocateMT_def push_def getElementMT_def getElementIntMT_def index_minus_1_def
      toDoubleIndex_def toStamp_def kBits_def arenaMT16_freed_def Let_def fun_upd_idem_iff)

section \<open>Allocation in the single-threaded arena\<close>

lemma getElementInt_valid:
  fixes a :: "'a::len ArrayArena"
  assumes "Index_ok TYPE('a)" "index \<noteq> 0" "dbg \<longrightarrow> index \<le> m_usedCapacity a"
  shows "getElementInt dbg a index (elementSize a) = Inr (slot_address a index)"
proof -
  have "LENGTH('a) \<le> 64" using assms(1) by (auto simp: Index_ok_def)
  then have "index_minus_1 index = ucast (index - 1)"
    using assms(2) by (simp add: index_minus_1_eq)
  moreover have "0 < index" using assms(2) by (simp add: word_greater_zero_iff)
  ultimately show ?thesis
    using assms(3) by (simp add: getElementInt_def indexed_assert_def slot_address_def mult.commute)
qed

text \<open>
  C1. In an arena whose buffer is acquired, a call of \<open>allocate\<close> with the locked element
  size does what the algorithm of the specification does, on the whole state: it pops the
  free head if there is one, else bumps \<open>usedCapacity\<close> if it is below the capacity, else
  fails with \<open>bad_alloc\<close>. It fails, and then with \<open>bad_alloc\<close>, exactly when the free list
  is empty and \<open>usedCapacity = capacity\<close>. The state is one the arena maintains:
  \<open>usedCapacity\<close> does not exceed the capacity (it never does in a reachable state, by
  \<open>reachable_usedCapacity_le\<close>), and the free head is a handle that was handed out, which
  only the debug build checks.
\<close>

theorem allocate_follows_algorithm:
  fixes a :: "'a::len ArrayArena"
  assumes idx: "Index_ok TYPE('a)"
    and buf: "arena_begin a \<noteq> 0"
    and size: "elementSize a = typeSize"
    and head: "dbg \<longrightarrow> m_nextFree a \<le> m_usedCapacity a"
    and used: "m_usedCapacity a \<le> m_capacity a"
  shows "allocate dbg a typeSize = allocate_spec a
       \<and> (fst (allocate dbg a typeSize) = Inl bad_alloc
            \<longleftrightarrow> m_nextFree a = 0 \<and> m_usedCapacity a = m_capacity a)
       \<and> (isl (fst (allocate dbg a typeSize))
            \<longleftrightarrow> m_nextFree a = 0 \<and> m_usedCapacity a = m_capacity a)"
proof (cases "m_nextFree a = 0")
  case True
  show ?thesis
  proof (cases "m_usedCapacity a = m_capacity a")
    case True
    with \<open>m_nextFree a = 0\<close> size show ?thesis
      by (simp add: allocate_def allocate_spec_def indexed_assert_def)
  next
    case False
    then have "m_usedCapacity a < m_capacity a" using used by simp
    with False \<open>m_nextFree a = 0\<close> size buf show ?thesis
      by (simp add: allocate_def allocate_spec_def indexed_assert_def Let_def)
  qed
next
  case False
  have "getElementInt dbg a (m_nextFree a) typeSize = Inr (slot_address a (m_nextFree a))"
    using getElementInt_valid [OF idx False head] size by simp
  with False size show ?thesis
    by (simp add: allocate_def allocate_spec_def indexed_assert_def Let_def)
qed

theorem allocate_follows_algorithm_witness:
  "Index_ok TYPE(16) \<and> arena_begin arena16 \<noteq> 0 \<and> elementSize arena16 = 8
   \<and> m_nextFree arena16 \<le> m_usedCapacity arena16
   \<and> m_usedCapacity arena16 \<le> m_capacity arena16
   \<and> allocate True arena16 8 = allocate_spec arena16
   \<and> allocate_spec arena16 = (Inr 2, arena16\<lparr>m_nextFree := 0, m_allocatedCount := 3\<rparr>)
   \<and> \<not> isl (fst (allocate True arena16 8))
   \<and> allocate True arena16_bump 8 = (Inr 4, arena16_full)
   \<and> arena_begin arena16_full \<noteq> 0 \<and> elementSize arena16_full = 8
   \<and> m_nextFree arena16_full = 0 \<and> m_usedCapacity arena16_full = m_capacity arena16_full
   \<and> allocate True arena16_full 8 = (Inl bad_alloc, arena16_full)"
proof -
  have h1: "Index_ok TYPE(16)" by (simp add: Index_ok_def)
  have h2: "arena_begin arena16 \<noteq> 0" by (simp add: arena_begin_def getPtr_def arena16_def)
  have h3: "elementSize arena16 = 8" by (simp add: elementSize_def sizeof_Index_def arena16_def)
  have h4: "True \<longrightarrow> m_nextFree arena16 \<le> m_usedCapacity arena16" by (simp add: arena16_def)
  have h5: "m_usedCapacity arena16 \<le> m_capacity arena16" by (simp add: arena16_def)
  have s: "allocate_spec arena16 = (Inr 2, arena16\<lparr>m_nextFree := 0, m_allocatedCount := 3\<rparr>)"
    by (simp add: allocate_spec_def arena16_def)
  have n: "m_nextFree arena16 \<noteq> 0" by (simp add: arena16_def)
  have b: "allocate True arena16_bump 8 = (Inr 4, arena16_full)"
    by (simp add: allocate_def arena16_full_def arena16_bump_def arena16_def indexed_assert_def
        elementSize_def sizeof_Index_def arena_begin_def getPtr_def Let_def)
  have f2: "arena_begin arena16_full \<noteq> 0"
    by (simp add: arena_begin_def getPtr_def arena16_full_def arena16_bump_def arena16_def)
  have f3: "elementSize arena16_full = 8"
    by (simp add: elementSize_def sizeof_Index_def arena16_full_def arena16_bump_def arena16_def)
  have f4: "True \<longrightarrow> m_nextFree arena16_full \<le> m_usedCapacity arena16_full"
    by (simp add: arena16_full_def arena16_bump_def arena16_def)
  have f5: "m_usedCapacity arena16_full \<le> m_capacity arena16_full"
    by (simp add: arena16_full_def arena16_bump_def arena16_def)
  have f6: "m_nextFree arena16_full = 0" "m_usedCapacity arena16_full = m_capacity arena16_full"
    by (simp_all add: arena16_full_def arena16_bump_def arena16_def)
  have fs: "allocate_spec arena16_full = (Inl bad_alloc, arena16_full)"
    using f6 by (simp add: allocate_spec_def)
  show ?thesis
    using allocate_follows_algorithm [OF h1 h2 h3 h4 h5]
      allocate_follows_algorithm [OF h1 f2 f3 f4 f5] h1 h2 h3 h4 h5 s n b f2 f3 f6 fs
    by simp
qed

lemma allocate_first_success:
  fixes a :: "'a::len ArrayArena"
  assumes first: "arena_begin a = 0" "m_nextFree a = 0"
    and ok: "allocate dbg a typeSize = (Inr h, a')"
  shows "m_elementSizeInIndex a' = ucast (typeSize div sizeof_Index TYPE('a))
         \<and> (dbg \<longrightarrow> typeSize mod sizeof_Index TYPE('a) = 0)"
  using ok first
  by (auto simp: allocate_def Alloc_malloc_def indexed_assert_def Let_def
      split: if_splits option.splits)

text \<open>
  C9. The first successful \<open>allocate(typeSize)\<close> of the single-threaded arena (no buffer
  held, free list empty) stores \<open>typeSize / sizeof(Index)\<close> cut to 16 bits, with no check:
  \<open>elementSize()\<close> is that count modulo \<open>2 ^ 16\<close> times \<open>sizeof(Index)\<close>. For a size that
  is a multiple of \<open>sizeof(Index)\<close> (the debug build asserts it), \<open>elementSize()\<close> equals
  \<open>typeSize\<close> if and only if \<open>typeSize / sizeof(Index) < 2 ^ 16\<close>.
\<close>

theorem elementSize_is_truncated:
  fixes a :: "'a::len ArrayArena"
  assumes idx: "Index_ok TYPE('a)"
    and first: "arena_begin a = 0" "m_nextFree a = 0"
    and ok: "allocate dbg a typeSize = (Inr h, a')"
  shows "m_elementSizeInIndex a' = ucast (typeSize div sizeof_Index TYPE('a))
       \<and> unat (elementSize a')
           = (unat typeSize div (LENGTH('a) div 8)) mod 2 ^ 16 * (LENGTH('a) div 8)
       \<and> (dbg \<or> typeSize mod sizeof_Index TYPE('a) = 0 \<longrightarrow>
            (elementSize a' = typeSize \<longleftrightarrow> unat typeSize div (LENGTH('a) div 8) < 2 ^ 16))"
proof -
  let ?s = "LENGTH('a) div 8"
  let ?q = "unat typeSize div ?s"
  have st: "m_elementSizeInIndex a' = ucast (typeSize div sizeof_Index TYPE('a))"
    and dm: "dbg \<longrightarrow> typeSize mod sizeof_Index TYPE('a) = 0"
    using allocate_first_success [OF first ok] by simp_all
  have es: "unat (elementSize a') = ?q mod 2 ^ 16 * ?s"
    by (simp only: unat_elementSize [OF idx] st unat_stored_count [OF idx])
  have s0: "0 < ?s" using sizeof_Index_cases [OF idx] by auto
  have "elementSize a' = typeSize \<longleftrightarrow> ?q < 2 ^ 16"
    if m: "typeSize mod sizeof_Index TYPE('a) = 0"
  proof -
    have "unat typeSize mod ?s = 0"
      using m unat_mod [of typeSize "sizeof_Index TYPE('a)"] unat_sizeof_Index [OF idx]
      by simp
    then have t: "unat typeSize = ?q * ?s" by (simp add: mod_eq_0_iff_dvd)
    have "elementSize a' = typeSize \<longleftrightarrow> ?q mod 2 ^ 16 * ?s = ?q * ?s"
      using es t by (simp add: word_unat_eq_iff)
    also have "\<dots> \<longleftrightarrow> ?q mod 2 ^ 16 = ?q" using s0 by simp
    also have "\<dots> \<longleftrightarrow> ?q < 2 ^ 16" by (simp add: mod_eq_self_iff_div_eq_0 div_eq_0_iff)
    finally show ?thesis .
  qed
  moreover have "typeSize mod sizeof_Index TYPE('a) = 0"
    if "dbg \<or> typeSize mod sizeof_Index TYPE('a) = 0"
    using that dm by auto
  ultimately have "dbg \<or> typeSize mod sizeof_Index TYPE('a) = 0 \<longrightarrow>
      (elementSize a' = typeSize \<longleftrightarrow> ?q < 2 ^ 16)"
    by (intro impI) simp
  with st es show ?thesis by (intro conjI)
qed

theorem elementSize_is_truncated_witness:
  "Index_ok TYPE(32) \<and> arena_begin arena32_fresh = 0 \<and> m_nextFree arena32_fresh = 0
   \<and> fst (allocate True arena32_fresh 262148) = Inr 1
   \<and> (262148 :: size_t) mod sizeof_Index TYPE(32) = 0
   \<and> \<not> unat (262148 :: size_t) div (LENGTH(32) div 8) < 2 ^ 16
   \<and> m_elementSizeInIndex (snd (allocate True arena32_fresh 262148)) = 1
   \<and> unat (elementSize (snd (allocate True arena32_fresh 262148))) = 4
   \<and> elementSize (snd (allocate True arena32_fresh 262148)) \<noteq> 262148
   \<and> fst (allocate True arena32_fresh 24) = Inr 1
   \<and> unat (24 :: size_t) div (LENGTH(32) div 8) < 2 ^ 16
   \<and> elementSize (snd (allocate True arena32_fresh 24)) = 24"
proof -
  have fresh: "arena32_fresh =
     \<lparr>m_ptr = 0, outcome = (\<lambda>n bytes. if bytes > 0x1000000 then None else Some 0x100000),
      mallocCalls = 0, m_capacity = 10, m_elementSizeInIndex = 0, m_doDelete = True,
      m_nextFree = 0, m_allocatedCount = 0, m_usedCapacity = 0, heap = (\<lambda>p. 0)\<rparr>"
    by (simp add: arena32_fresh_def ArrayArena_def setCapacity_def BufAlloc_def
        sizeof_Index_def arena_begin_def getPtr_def Alloc.extend_def ArrayArena.fields_def)
  have idx: "Index_ok TYPE(32)" by (simp add: Index_ok_def)
  have first: "arena_begin arena32_fresh = 0" "m_nextFree arena32_fresh = 0"
    by (simp_all add: fresh arena_begin_def getPtr_def)
  have r: "fst (allocate True arena32_fresh 262148) = Inr 1"
    by (simp add: fresh allocate_def indexed_assert_def elementSize_def sizeof_Index_def
        arena_begin_def getPtr_def Alloc_malloc_def Let_def)
  then have ok: "allocate True arena32_fresh 262148
                 = (Inr 1, snd (allocate True arena32_fresh 262148))"
    by (simp add: prod_eq_iff)
  have r2: "fst (allocate True arena32_fresh 24) = Inr 1"
    by (simp add: fresh allocate_def indexed_assert_def elementSize_def sizeof_Index_def
        arena_begin_def getPtr_def Alloc_malloc_def Let_def)
  then have ok2: "allocate True arena32_fresh 24 = (Inr 1, snd (allocate True arena32_fresh 24))"
    by (simp add: prod_eq_iff)
  have m: "(262148 :: size_t) mod sizeof_Index TYPE(32) = 0"
    by (simp add: sizeof_Index_def)
  show ?thesis
    using elementSize_is_truncated [OF idx first ok] elementSize_is_truncated [OF idx first ok2]
      idx first r r2 m
    by (simp add: sizeof_Index_def)
qed

section \<open>Deallocation in both arenas\<close>

text \<open>
  C3. A \<open>deallocate\<close> that leaves \<open>allocatedCount\<close> at zero has succeeded and has reset the
  arena: \<open>usedCapacity\<close> and the free head are 0. With a capacity of at least 1, the
  buffer in place and the locked element size, the next \<open>allocate\<close> returns handle 1.
\<close>

theorem deallocate_to_zero_resets:
  fixes a :: "'a::len ArrayArena"
  assumes call: "deallocate dbg a h sz = (r, a')"
    and zero: "m_allocatedCount a' = 0"
  shows "r = Inr () \<and> m_usedCapacity a' = 0 \<and> m_nextFree a' = 0
       \<and> (m_capacity a \<noteq> 0 \<and> arena_begin a \<noteq> 0 \<and> elementSize a = typeSize
            \<longrightarrow> fst (allocate dbg a' typeSize) = Inr 1)"
proof -
  let ?a1 = "a\<lparr>m_allocatedCount := m_allocatedCount a - 1\<rparr>"
  have c0: "m_allocatedCount a - 1 = 0"
    using call zero
    by (auto simp: deallocate_def Let_def reset_def split: if_splits sum.splits)
  then have a': "a' = reset ?a1" and r: "r = Inr ()"
    using call by (simp_all add: deallocate_def Let_def)
  have "fst (allocate dbg a' typeSize) = Inr 1"
    if "m_capacity a \<noteq> 0" "arena_begin a \<noteq> 0" "elementSize a = typeSize"
    using that a'
    by (simp add: allocate_def reset_def indexed_assert_def elementSize_def arena_begin_def
        getPtr_def Let_def)
  then show ?thesis
    using a' r by (simp add: reset_def)
qed

theorem deallocate_to_zero_resets_witness:
  "deallocate True arena16_last 3 8 = (Inr (), reset (arena16_last\<lparr>m_allocatedCount := 0\<rparr>))
   \<and> m_allocatedCount (reset (arena16_last\<lparr>m_allocatedCount := 0\<rparr>)) = 0
   \<and> m_capacity arena16_last \<noteq> 0 \<and> arena_begin arena16_last \<noteq> 0
   \<and> elementSize arena16_last = 8
   \<and> m_usedCapacity arena16_last = 3
   \<and> m_usedCapacity (reset (arena16_last\<lparr>m_allocatedCount := 0\<rparr>)) = 0
   \<and> m_nextFree (reset (arena16_last\<lparr>m_allocatedCount := 0\<rparr>)) = 0
   \<and> fst (allocate True (reset (arena16_last\<lparr>m_allocatedCount := 0\<rparr>)) 8) = Inr 1"
proof -
  let ?a' = "reset (arena16_last\<lparr>m_allocatedCount := 0\<rparr>)"
  have call: "deallocate True arena16_last 3 8 = (Inr (), ?a')"
    by (simp add: deallocate_def arena16_last_def arena16_def Let_def)
  have zero: "m_allocatedCount ?a' = 0" by (simp add: reset_def)
  have pre: "m_capacity arena16_last \<noteq> 0 \<and> arena_begin arena16_last \<noteq> 0
             \<and> elementSize arena16_last = 8 \<and> m_usedCapacity arena16_last = 3"
    by (simp add: arena16_last_def arena16_def arena_begin_def getPtr_def elementSize_def
        sizeof_Index_def)
  show ?thesis
    using deallocate_to_zero_resets [OF call zero, of 8] call zero pre by simp
qed

text \<open>
  C4, as the claim states it, fails for the single-threaded arena: with deletion disabled
  and two live slots, \<open>deallocate\<close> changes \<open>allocatedCount\<close>.
\<close>

theorem deallocate_delete_disabled_counterexample:
  "\<not> m_doDelete arena16_bump
   \<and> snd (deallocate True arena16_bump 3 8) \<noteq> arena16_bump
   \<and> m_allocatedCount arena16_bump = 2
   \<and> m_allocatedCount (snd (deallocate True arena16_bump 3 8)) = 1"
proof -
  have 1: "\<not> m_doDelete arena16_bump" "m_allocatedCount arena16_bump = 2"
    by (simp_all add: arena16_bump_def arena16_def)
  have 2: "m_allocatedCount (snd (deallocate True arena16_bump 3 8)) = 1"
    by (simp add: deallocate_def arena16_bump_def arena16_def Let_def)
  have 3: "snd (deallocate True arena16_bump 3 8) \<noteq> arena16_bump"
  proof
    assume "snd (deallocate True arena16_bump 3 8) = arena16_bump"
    with 2 have "m_allocatedCount arena16_bump = 1" by simp
    with 1 show False by simp
  qed
  show ?thesis using 1 2 3 by simp
qed

text \<open>
  C4, amended. With deletion disabled, \<open>deallocate\<close> of the multi-threaded arena returns
  the state it was given. That of the single-threaded arena succeeds, decrements
  \<open>allocatedCount\<close> and, when the count has reached zero, resets the arena; the free head
  and \<open>usedCapacity\<close> change in that reset only, and the buffer contents, the capacity, the
  element size and the buffer pointer never change.
\<close>

theorem deallocate_delete_disabled:
  fixes a :: "'a::len ArrayArena" and b :: "'b::len ArrayArenaMT"
  shows "(\<not> m_doDeleteMT b \<longrightarrow> deallocateMT dbg b hb szb = (Inr (), b))
       \<and> (\<not> m_doDelete a \<longrightarrow>
            deallocate dbg a h sz =
              (Inr (),
               if m_allocatedCount a = 1
               then a\<lparr>m_nextFree := 0, m_allocatedCount := 0, m_usedCapacity := 0\<rparr>
               else a\<lparr>m_allocatedCount := m_allocatedCount a - 1\<rparr>)
            \<and> heap (snd (deallocate dbg a h sz)) = heap a
            \<and> m_capacity (snd (deallocate dbg a h sz)) = m_capacity a
            \<and> elementSize (snd (deallocate dbg a h sz)) = elementSize a
            \<and> arena_begin (snd (deallocate dbg a h sz)) = arena_begin a)"
proof -
  have c: "m_allocatedCount a - 1 = 0 \<longleftrightarrow> m_allocatedCount a = 1"
    by simp
  show ?thesis
    by (simp add: deallocateMT_def deallocate_def Let_def reset_def c elementSize_def
        arena_begin_def getPtr_def)
qed

theorem deallocate_delete_disabled_witness:
  "\<not> m_doDeleteMT arenaMT16 \<and> deallocateMT True arenaMT16 2 8 = (Inr (), arenaMT16)
   \<and> \<not> m_doDelete arena16_bump
   \<and> deallocate True arena16_bump 3 8 = (Inr (), arena16_bump\<lparr>m_allocatedCount := 1\<rparr>)"
proof -
  have 1: "\<not> m_doDeleteMT arenaMT16" by (simp add: arenaMT16_def)
  have 2: "\<not> m_doDelete arena16_bump" "m_allocatedCount arena16_bump = 2"
    by (simp_all add: arena16_bump_def arena16_def)
  show ?thesis
    using deallocate_delete_disabled [of arenaMT16 True 2 8 arena16_bump 3 8] 1 2 by simp
qed

section \<open>The round trip between handles and addresses\<close>

text \<open>
  The round trip holds as long as the offset in index words fits 32 bits, hence for every
  16-bit arena.
\<close>

lemma roundtrip_without_truncation:
  fixes a :: "'a::len ArrayArena"
  assumes idx: "Index_ok TYPE('a)"
    and nz: "h \<noteq> 0" and le: "h \<le> m_usedCapacity a"
    and esi: "m_elementSizeInIndex a \<noteq> 0"
    and small: "unat (m_elementSizeInIndex a) * (unat h - 1) < 2 ^ 32"
  shows "getElement dbg a h = Inr (slot_address a h)
         \<and> pointer_to dbg a (slot_address a h) = Inr h"
proof -
  let ?s = "LENGTH('a) div 8"
  let ?n = "unat (m_elementSizeInIndex a)"
  let ?k = "unat h - 1"
  let ?off = "ucast (h - 1) * elementSize a :: size_t"
  let ?pos = "ucast ((ucast (?off div sizeof_Index TYPE('a)) :: 32 word)
                div ucast (m_elementSizeInIndex a)) :: 'a word"
  have W: "LENGTH('a) \<le> 64" using idx by (auto simp: Index_ok_def)
  have s: "?s = 2 \<or> ?s = 4" by (rule sizeof_Index_cases [OF idx])
  then have s0: "0 < ?s" by auto
  have n0: "0 < ?n" using esi by (simp add: unat_gt_0)
  have hk: "unat (h - 1) = ?k" using nz by (simp add: unat_minus_one)
  have k: "unat (ucast (h - 1) :: size_t) = ?k"
    using unat_ucast_up [of "h - 1", where ?'b = 64] W hk by simp
  have "unat (h - 1) < 2 ^ LENGTH('a)"
    by (rule unsigned_less)
  then have kW: "?k < 2 ^ LENGTH('a)" by (simp only: hk)
  have e: "unat (elementSize a) = ?n * ?s" by (rule unat_elementSize [OF idx])
  have "?k * (?n * ?s) < 2 ^ 64" by (rule nat_extent_bound [OF s small])
  then have "unat (ucast (h - 1) :: size_t) * unat (elementSize a) < 2 ^ LENGTH(64)"
    by (simp only: k e) simp
  then have "unat ?off = unat (ucast (h - 1) :: size_t) * unat (elementSize a)"
    by (simp only: unat_mult_lem)
  then have off: "unat ?off = ?n * ?k * ?s"
    by (simp only: k e) (simp add: ac_simps)
  have "unat ?off div ?s mod 2 ^ 32 div ?n = ?k"
    by (simp only: off nat_position_exact [OF n0 s0 small])
  then have "unat ?off div ?s mod 2 ^ 32 div ?n mod 2 ^ LENGTH('a) = ?k"
    using kW by simp
  then have "unat ?pos = unat (h - 1)"
    by (simp only: unat_position [OF idx] hk)
  then have pos: "?pos = h - 1" by (simp only: word_unat_eq_iff)
  have g: "getElement dbg a h = Inr (slot_address a h)"
    using getElementInt_valid [OF idx nz] le by (simp add: getElement_def)
  have o: "slot_address a h - arena_begin a = ?off"
    by (simp add: slot_address_def)
  have "pointer_to dbg a (slot_address a h) = Inr h"
    unfolding pointer_to_def Let_def o pos
    using esi by (simp add: indexed_assert_def mult.commute)
  with g show ?thesis by simp
qed

lemma roundtrip_16_bit:
  fixes a :: "16 ArrayArena"
  assumes nz: "h \<noteq> 0" and le: "h \<le> m_usedCapacity a"
    and esi: "m_elementSizeInIndex a \<noteq> 0"
  shows "getElement dbg a h = Inr (slot_address a h)
         \<and> pointer_to dbg a (slot_address a h) = Inr h"
proof -
  have "unat (m_elementSizeInIndex a) < 2 ^ 16"
    using unsigned_less [of "m_elementSizeInIndex a", where ?'a = nat] by simp
  moreover have "unat h - 1 < 2 ^ 16"
    using unsigned_less [of h, where ?'a = nat] by simp
  ultimately have "unat (m_elementSizeInIndex a) * (unat h - 1) < 2 ^ 16 * 2 ^ 16"
    by (rule mult_strict_mono') simp_all
  then have small: "unat (m_elementSizeInIndex a) * (unat h - 1) < 2 ^ 32" by simp
  have idx: "Index_ok TYPE(16)" by (simp add: Index_ok_def)
  show ?thesis by (rule roundtrip_without_truncation [OF idx nz le esi small])
qed

text \<open>
  C2 fails on the code for 32-bit handles. \<open>pointer_to\<close> cuts \<open>offset / sizeof(Index)\<close>
  to 32 bits before it divides by the element size. In \<open>arena32_large\<close>, handle
  \<open>2 ^ 22 + 1\<close> is valid and is the one \<open>allocate\<close> returned last; its address is
  \<open>2 ^ 34\<close> bytes into the buffer, the quotient \<open>2 ^ 32\<close> is cut to 0, and \<open>pointer_to\<close>
  returns handle 1 (its own assertion aborts in a debug build).
\<close>

theorem roundtrip_fails_on_large_arena:
  "allocate True
     (arena32_large\<lparr>m_allocatedCount := 4194304, m_usedCapacity := 4194304\<rparr>) 4096
     = (Inr 4194305, arena32_large)
   \<and> (0 :: 32 word) < 4194305 \<and> 4194305 \<le> m_usedCapacity arena32_large
   \<and> unat (m_capacity arena32_large) < 2 ^ (LENGTH(32) - 1)
   \<and> getElement True arena32_large 4194305 = Inr 0x500000000
   \<and> pointer_to False arena32_large 0x500000000 = Inr 1
   \<and> pointer_to True arena32_large 0x500000000 = Inl assert_failed"
  by (simp add: arena32_large_def allocate_def getElement_def getElementInt_def pointer_to_def
      index_minus_1_def elementSize_def sizeof_Index_def arena_begin_def getPtr_def
      indexed_assert_def Let_def)

text \<open>
  For an address inside the buffer, the handle that \<open>pointer_to\<close> returns lies between 1
  and the capacity, whatever the truncation does to it; so its tag bit is clear.
\<close>

lemma pointer_to_in_range:
  fixes a :: "'a::len ArrayArena"
  assumes idx: "Index_ok TYPE('a)"
    and lo: "arena_begin a \<le> p" and hi: "p < arena_end a"
    and res: "pointer_to dbg a p = Inr h"
  shows "0 < unat h \<and> unat h \<le> unat (m_capacity a)"
proof -
  let ?s = "LENGTH('a) div 8"
  let ?n = "unat (m_elementSizeInIndex a)"
  let ?c = "unat (m_capacity a)"
  let ?o = "unat (p - arena_begin a)"
  let ?pos = "ucast ((ucast ((p - arena_begin a) div sizeof_Index TYPE('a)) :: 32 word)
                div ucast (m_elementSizeInIndex a)) :: 'a word"
  have nz: "m_elementSizeInIndex a \<noteq> 0" and h: "h = ?pos + 1"
    using res by (auto simp: pointer_to_def Let_def split: if_splits)
  have W: "LENGTH('a) \<le> 64" using idx by (auto simp: Index_ok_def)
  have s0: "0 < ?s" using sizeof_Index_cases [OF idx] by auto
  have "p - arena_begin a < arena_end a - arena_begin a"
    using hi lo by (rule word_less_minus_mono_left)
  then have "p - arena_begin a < elementSize a * ucast (m_capacity a)"
    by (simp add: arena_end_def)
  then have "?o < unat (elementSize a * ucast (m_capacity a))"
    by (simp add: word_less_nat_alt)
  also have "\<dots> \<le> unat (elementSize a) * unat (ucast (m_capacity a) :: size_t)"
    by (rule unat_mult_le)
  also have "\<dots> = (?n * ?c) * ?s"
    using unat_ucast_up [of "m_capacity a", where ?'b = 64] W
    by (simp add: unat_elementSize [OF idx] ac_simps)
  finally have "?o div ?s < ?n * ?c"
    using s0 by (simp add: less_mult_imp_div_less)
  moreover have "?o div ?s mod 2 ^ 32 \<le> ?o div ?s" by simp
  ultimately have "?o div ?s mod 2 ^ 32 < ?c * ?n" by (simp add: ac_simps)
  then have q: "?o div ?s mod 2 ^ 32 div ?n < ?c"
    by (rule less_mult_imp_div_less)
  have c: "?c < 2 ^ LENGTH('a)" using unsigned_less [of "m_capacity a", where ?'a = nat] by simp
  have "?o div ?s mod 2 ^ 32 div ?n < 2 ^ LENGTH('a)"
    using q c by linarith
  then have pos: "unat ?pos = ?o div ?s mod 2 ^ 32 div ?n"
    by (simp add: unat_position [OF idx])
  have "Suc (unat ?pos) < 2 ^ LENGTH('a)"
    using pos q c by linarith
  then have "unat ?pos + unat (1 :: 'a word) < 2 ^ LENGTH('a)"
    by simp
  then have "unat (?pos + 1) = unat ?pos + unat (1 :: 'a word)"
    by (simp only: unat_add_lem)
  then show ?thesis using h pos q by simp
qed

lemma pointer_to_in_range_untagged:
  fixes a :: "'a::len ArrayArena"
  assumes idx: "Index_ok TYPE('a)"
    and cap: "unat (m_capacity a) < 2 ^ (LENGTH('a) - 1)"
    and lo: "arena_begin a \<le> p" and hi: "p < arena_end a"
    and res: "pointer_to dbg a p = Inr h"
  shows "h AND kOnStackFlag TYPE('a) = 0"
proof -
  have "unat h < 2 ^ (LENGTH('a) - 1)"
    using pointer_to_in_range [OF idx lo hi res] cap by simp
  then show ?thesis
    by (simp only: kOnStackFlag_value [OF idx] small_word_flag_clear)
qed

section \<open>The capacity bound\<close>

text \<open>
  C5, as the claim states it, fails in its second half: a 16-bit arena of capacity
  \<open>2 ^ 14\<close> is constructed without error, and the universal configuration takes it.
\<close>

theorem capacity_refusal_counterexample:
  "fst (ArrayArena 16384 True (BufAlloc 0x10000 0x20000) :: (failure + unit) \<times> 16 ArrayArena)
     = Inr ()
   \<and> m_capacity arena16_big = 16384
   \<and> (2 :: nat) ^ (LENGTH(16) - 2) \<le> unat (16384 :: size_t)
   \<and> arena (setArena universal16 arena16_big) = arena16_big"
  by (simp add: arena16_big_def ArrayArena_def setCapacity_def BufAlloc_def sizeof_Index_def
      arena_begin_def getPtr_def Alloc.extend_def ArrayArena.fields_def setArena_def)

text \<open>
  What the missing check lets through: the last handle of that arena is \<open>0x4000\<close>, the
  container flag itself, and the universal configuration decodes it as the container
  address, not as the slot.
\<close>

lemma universal_handle_collision:
  "fst (allocate True arena16_almost_full 8) = Inr 16384
   \<and> getElement True (snd (allocate True arena16_almost_full 8)) 16384 = Inr 0x2FFF8
   \<and> SingleArenaConfigUniversal_getElement True 2
        (universal16\<lparr>arena := snd (allocate True arena16_almost_full 8)\<rparr>) 16384 = Inr 0x5000"
  by (simp add: allocate_def arena16_almost_full_def indexed_assert_def elementSize_def
      sizeof_Index_def arena_begin_def getPtr_def Let_def getElement_def getElementInt_def
      index_minus_1_def SingleArenaConfigUniversal_getElement_def kContainerFlag_def
      kOnStackFlag_def universal16_def)

text \<open>
  C5, amended. \<open>setCapacity\<close> of either arena throws \<open>length_error\<close> for every capacity of
  at least \<open>2 ^ (W - 1)\<close> and leaves the arena as it was; every smaller capacity is taken
  while no buffer is held, those from \<open>2 ^ (W - 2)\<close> on included; and the universal
  configuration stores whatever arena it is given.
\<close>

theorem setCapacity_refuses_from_half_range:
  fixes a :: "'a::len ArrayArena" and b :: "'a ArrayArenaMT"
    and cfg :: "'a ConfigStoreUniversal"
  assumes idx: "Index_ok TYPE('a)"
  shows "(2 ^ (LENGTH('a) - 1) \<le> unat n \<longrightarrow>
            setCapacity a n = (Inl length_error, a) \<and> setCapacityMT b n = (Inl length_error, b))
       \<and> (unat n < 2 ^ (LENGTH('a) - 1) \<and> arena_begin a = 0 \<longrightarrow>
            setCapacity a n = (Inr (), a\<lparr>m_capacity := ucast n\<rparr>))
       \<and> (unat n < 2 ^ (LENGTH('a) - 1) \<and> beginMT b = 0 \<longrightarrow>
            setCapacityMT b n = (Inr (), b\<lparr>m_capacityMT := ucast n\<rparr>))
       \<and> arena (setArena cfg a) = a"
  using capacity_bound_unat [OF idx, of n]
  by (simp add: setCapacity_def setCapacityMT_def setArena_def not_le)

theorem setCapacity_refuses_from_half_range_witness:
  "Index_ok TYPE(16)
   \<and> (2 :: nat) ^ (LENGTH(16) - 1) \<le> unat (32768 :: size_t)
   \<and> setCapacity (freeMemory arena16) 32768 = (Inl length_error, freeMemory arena16)
   \<and> setCapacityMT arenaMT16_small 32768 = (Inl length_error, arenaMT16_small)
   \<and> unat (32767 :: size_t) < 2 ^ (LENGTH(16) - 1) \<and> arena_begin (freeMemory arena16) = 0
   \<and> beginMT arenaMT16_small = 0
   \<and> setCapacity (freeMemory arena16) 32767
       = (Inr (), (freeMemory arena16)\<lparr>m_capacity := 32767\<rparr>)
   \<and> setCapacityMT arenaMT16_small 32767
       = (Inr (), arenaMT16_small\<lparr>m_capacityMT := 32767\<rparr>)"
proof -
  have h: "Index_ok TYPE(16)" by (simp add: Index_ok_def)
  have b: "arena_begin (freeMemory arena16) = 0"
    by (simp add: freeMemory_def Alloc_free_def arena_begin_def getPtr_def reset_def)
  have bm: "beginMT arenaMT16_small = 0"
    by (simp add: arenaMT16_small_def ArrayArenaMT_def setCapacityMT_def BufAlloc_def
        sizeof_Index_def beginMT_def getPtr_def Alloc.extend_def ArrayArenaMT.fields_def)
  show ?thesis
    using setCapacity_refuses_from_half_range
            [OF h, of 32768 "freeMemory arena16" "arenaMT16_small"]
      setCapacity_refuses_from_half_range
            [OF h, of 32767 "freeMemory arena16" "arenaMT16_small"] h b bm
    by simp
qed

section \<open>The sticky allocation error of the multi-threaded arena\<close>

lemma pull_empty:
  "(ucast (m_head a) :: 'a word) = 0 \<Longrightarrow> pull dbg (a :: 'a::len ArrayArenaMT) = (Inr 0, a)"
  by (simp add: pull_def Let_def)

lemma listLength_empty:
  "(ucast (m_head a) :: 'a word) = 0 \<Longrightarrow> listLength dbg (a :: 'a::len ArrayArenaMT) = Some (Inr 0)"
  by (simp add: listLength_def listLength_loop.simps)

lemma resetMT_empty:
  "(ucast (m_head a) :: 'a word) = 0 \<Longrightarrow>
   resetMT dbg (a :: 'a::len ArrayArenaMT) = Some (Inr (), a\<lparr>m_head := 0, m_usedCapacityMT := 0\<rparr>)"
  by (simp add: resetMT_def listLength_empty)

lemma resetMT_release:
  "resetMT False a = Some (Inr (), a\<lparr>m_head := 0, m_usedCapacityMT := 0\<rparr>)"
  by (simp add: resetMT_def)

lemma allocateMT_latched:
  fixes s :: "'a::len ArrayArenaMT"
  assumes l: "latched s" and sz: "dbg \<longrightarrow> m_elementSizeInIndexMT s = 0"
  shows "allocateMT dbg s typeSize = (Inl bad_alloc, s)"
proof -
  have p: "pull dbg s = (Inr 0, s)"
    using l by (simp add: latched_def pull_empty)
  have e: "indexed_assert dbg (elementSizeMT s = 0 \<or> elementSizeMT s = typeSize)"
    using sz by (simp add: indexed_assert_def elementSizeMT_def)
  have b: "allocateBuffer dbg (s\<lparr>m_usedCapacityMT := m_usedCapacityMT s + 1\<rparr>) typeSize
           = (Inl bad_alloc, s\<lparr>m_usedCapacityMT := m_usedCapacityMT s + 1\<rparr>)"
    using l by (simp add: allocateBuffer_def latched_def)
  have g: "beginMT (s\<lparr>m_usedCapacityMT := m_usedCapacityMT s + 1\<rparr>) = 0"
    using l by (simp add: latched_def beginMT_def getPtr_def)
  show ?thesis
    using p e b g by (simp add: allocateMT_def Let_def)
qed

lemma allocateMT_latches:
  fixes a :: "'a::len ArrayArenaMT"
  assumes failed: "allocateMT dbg a typeSize = (Inl bad_alloc, a')"
    and invoked: "mallocCalls a' \<noteq> mallocCalls a"
  shows "latched a' \<and> mallocCalls a' = Suc (mallocCalls a)
         \<and> m_elementSizeInIndexMT a' = m_elementSizeInIndexMT a"
proof -
  have h0: "(ucast (m_head a) :: 'a word) = 0"
  proof (rule ccontr)
    assume "(ucast (m_head a) :: 'a word) \<noteq> 0"
    then have "mallocCalls a' = mallocCalls a"
      using failed
      by (auto simp: allocateMT_def pull_def Let_def split: if_splits sum.splits)
    with invoked show False by simp
  qed
  then have p: "pull dbg a = (Inr 0, a)" by (rule pull_empty)
  show ?thesis
    using failed invoked p h0
    by (auto simp: allocateMT_def allocateBuffer_def Alloc_malloc_def Let_def latched_def
        beginMT_def getPtr_def
        split: if_splits sum.splits option.splits prod.splits)
qed

lemma run_calls_latched:
  fixes s :: "'a::len ArrayArenaMT"
  assumes "latched s" and "dbg \<longrightarrow> m_elementSizeInIndexMT s = 0"
    and "run_calls dbg s cs = (rs, s')"
  shows "rs = replicate (length (filter is_Allocate cs)) (Inl bad_alloc)
         \<and> latched s' \<and> mallocCalls s' = mallocCalls s"
  using assms
proof (induction cs arbitrary: s rs s')
  case Nil
  then show ?case by simp
next
  case (Cons c cs)
  show ?case
  proof (cases c)
    case (Allocate typeSize)
    obtain rs0 s0 where r0: "run_calls dbg s cs = (rs0, s0)" by (cases "run_calls dbg s cs")
    have "rs = Inl bad_alloc # rs0" "s' = s0"
      using Cons.prems r0 Allocate by (simp_all add: allocateMT_latched)
    with Cons.IH [OF Cons.prems(1,2) r0] Allocate show ?thesis by simp
  next
    case (SetCapacity n)
    let ?s = "snd (setCapacityMT s n)"
    have 1: "latched ?s" "dbg \<longrightarrow> m_elementSizeInIndexMT ?s = 0" "mallocCalls ?s = mallocCalls s"
      using Cons.prems(1,2)
      by (simp_all add: setCapacityMT_def latched_def beginMT_def getPtr_def)
    have "run_calls dbg ?s cs = (rs, s')" using Cons.prems(3) SetCapacity by simp
    from Cons.IH [OF 1(1,2) this] 1(3) SetCapacity show ?thesis by simp
  next
    case (EnableDelete b)
    let ?s = "enableDeleteMT s b"
    have 1: "latched ?s" "dbg \<longrightarrow> m_elementSizeInIndexMT ?s = 0" "mallocCalls ?s = mallocCalls s"
      using Cons.prems(1,2)
      by (simp_all add: enableDeleteMT_def latched_def beginMT_def getPtr_def)
    have "run_calls dbg ?s cs = (rs, s')" using Cons.prems(3) EnableDelete by simp
    from Cons.IH [OF 1(1,2) this] 1(3) EnableDelete show ?thesis by simp
  next
    case Reset
    let ?s = "s\<lparr>m_head := 0, m_usedCapacityMT := 0\<rparr>"
    have r: "resetMT dbg s = Some (Inr (), ?s)"
      using Cons.prems(1) by (simp add: latched_def resetMT_empty)
    have 1: "latched ?s" "dbg \<longrightarrow> m_elementSizeInIndexMT ?s = 0" "mallocCalls ?s = mallocCalls s"
      using Cons.prems(1,2)
      by (simp_all add: latched_def beginMT_def getPtr_def)
    have "run_calls dbg ?s cs = (rs, s')" using Cons.prems(3) Reset r by simp
    from Cons.IH [OF 1(1,2) this] 1(3) Reset show ?thesis by simp
  qed
qed

text \<open>
  C6. When a call of \<open>allocate\<close> has invoked the buffer source and failed, the error flag
  is set, and from then on, whatever sequence of \<open>allocate\<close>, \<open>setCapacity\<close>,
  \<open>enableDelete\<close> and \<open>reset\<close> calls follows, every \<open>allocate\<close> fails with \<open>bad_alloc\<close>, the
  buffer source is not invoked again and the flag stays set; \<open>freeMemory\<close> returns and
  clears it (the free list is empty there, so the walk of a debug build ends at once).
  No element size is locked when the acquisition fails (the debug build asserts on it).
\<close>

theorem allocation_error_is_sticky:
  fixes a :: "'a::len ArrayArenaMT"
  assumes failed: "allocateMT dbg a typeSize = (Inl bad_alloc, a')"
    and invoked: "mallocCalls a' \<noteq> mallocCalls a"
    and nosize: "dbg \<longrightarrow> m_elementSizeInIndexMT a = 0"
    and run: "run_calls dbg a' cs = (rs, a'')"
  shows "m_isAllocError a' \<and> mallocCalls a' = Suc (mallocCalls a)
       \<and> rs = replicate (length (filter is_Allocate cs)) (Inl bad_alloc)
       \<and> mallocCalls a'' = mallocCalls a' \<and> m_isAllocError a''
       \<and> (\<exists>f. freeMemoryMT dbg a'' = Some (Inr (), f) \<and> \<not> m_isAllocError f)"
proof -
  have l: "latched a'" "mallocCalls a' = Suc (mallocCalls a)"
    "m_elementSizeInIndexMT a' = m_elementSizeInIndexMT a"
    using allocateMT_latches [OF failed invoked] by simp_all
  have "dbg \<longrightarrow> m_elementSizeInIndexMT a' = 0" using nosize l(3) by simp
  from run_calls_latched [OF l(1) this run] l show ?thesis
    by (simp add: latched_def freeMemoryMT_def resetMT_empty Alloc_free_def)
qed

theorem allocation_error_is_sticky_witness:
  "allocateMT True arenaMT16_small 8
     = (Inl bad_alloc, arenaMT16_small\<lparr>mallocCalls := 1, m_isAllocError := True\<rparr>)
   \<and> mallocCalls (arenaMT16_small\<lparr>mallocCalls := 1, m_isAllocError := True\<rparr>)
       \<noteq> mallocCalls arenaMT16_small
   \<and> m_elementSizeInIndexMT arenaMT16_small = 0
   \<and> fst (run_calls True (arenaMT16_small\<lparr>mallocCalls := 1, m_isAllocError := True\<rparr>)
            [Allocate 8, Reset, Allocate 8, SetCapacity 2, EnableDelete False, Allocate 8])
       = [Inl bad_alloc, Inl bad_alloc, Inl bad_alloc]
   \<and> mallocCalls (snd (run_calls True
            (arenaMT16_small\<lparr>mallocCalls := 1, m_isAllocError := True\<rparr>)
            [Allocate 8, Reset, Allocate 8, SetCapacity 2, EnableDelete False, Allocate 8])) = 1"
proof -
  let ?a' = "arenaMT16_small\<lparr>mallocCalls := 1, m_isAllocError := True\<rparr>"
  let ?cs = "[Allocate 8, Reset, Allocate 8, SetCapacity 2, EnableDelete False, Allocate 8]"
  have small: "arenaMT16_small =
     \<lparr>m_ptr = 0, outcome = (\<lambda>n bytes. if bytes > 16 then None else Some 0x1000),
      mallocCalls = 0, m_capacityMT = 4, m_elementSizeInIndexMT = 0, m_doDeleteMT = True,
      m_isAllocError = False, m_head = 0, m_usedCapacityMT = 0, heapMT = (\<lambda>p. 0)\<rparr>"
    by (simp add: arenaMT16_small_def ArrayArenaMT_def setCapacityMT_def BufAlloc_def
        sizeof_Index_def beginMT_def getPtr_def Alloc.extend_def ArrayArenaMT.fields_def)
  have failed: "allocateMT True arenaMT16_small 8 = (Inl bad_alloc, ?a')"
    by (simp add: small allocateMT_def pull_def allocateBuffer_def Alloc_malloc_def
        indexed_assert_def elementSizeMT_def sizeof_Index_def beginMT_def getPtr_def Let_def)
  have invoked: "mallocCalls ?a' \<noteq> mallocCalls arenaMT16_small"
    by (simp add: small)
  have nosize: "True \<longrightarrow> m_elementSizeInIndexMT arenaMT16_small = 0"
    by (simp add: small)
  have run: "run_calls True ?a' ?cs = (fst (run_calls True ?a' ?cs), snd (run_calls True ?a' ?cs))"
    by simp
  show ?thesis
    using allocation_error_is_sticky [OF failed invoked nosize run] failed invoked nosize
    by simp
qed

section \<open>freeMemory of the multi-threaded arena\<close>

text \<open>
  A \<open>freeMemory\<close> that returns has cleared the error flag, dropped the buffer, forgotten
  the element size and emptied the free list.
\<close>

lemma freeMemoryMT_result:
  fixes a :: "'a::len ArrayArenaMT"
  assumes "freeMemoryMT dbg a = Some (Inr (), f)"
  shows "f = (Alloc_free a)\<lparr>m_elementSizeInIndexMT := 0, m_isAllocError := False,
                            m_head := 0, m_usedCapacityMT := 0\<rparr>"
  using assms
  by (auto simp: freeMemoryMT_def resetMT_def split: if_splits option.splits sum.splits)

text \<open>
  It returns in a release build, and in a debug build when the free list is empty.
\<close>

lemma freeMemoryMT_returns:
  fixes a :: "'a::len ArrayArenaMT"
  assumes "dbg \<longrightarrow> (ucast (m_head a) :: 'a word) = 0"
  shows "freeMemoryMT dbg a
         = Some (Inr (), (Alloc_free a)\<lparr>m_elementSizeInIndexMT := 0, m_isAllocError := False,
                                        m_head := 0, m_usedCapacityMT := 0\<rparr>)"
proof (cases dbg)
  case True
  with assms have "(ucast (m_head a) :: 'a word) = 0" by simp
  then show ?thesis by (simp add: freeMemoryMT_def resetMT_empty Alloc_free_def)
next
  case False
  then show ?thesis by (simp add: freeMemoryMT_def resetMT_release)
qed

text \<open>
  After a \<open>freeMemory\<close> that has returned, in an arena with room for a slot, the next
  \<open>allocate\<close> (of a size that is a multiple of the Index size, which the debug build
  asserts) invokes the buffer source once more, and its outcome decides the call.
\<close>

lemma allocateMT_after_freeMemory:
  fixes a :: "'a::len ArrayArenaMT"
  assumes ret: "freeMemoryMT dbg a = Some (Inr (), f)"
  shows "\<not> m_isAllocError f \<and> beginMT f = 0 \<and> elementSizeMT f = 0 \<and> m_head f = 0
       \<and> m_usedCapacityMT f = 0 \<and> mallocCalls f = mallocCalls a
       \<and> (m_capacityMT a \<noteq> 0 \<and> (dbg \<longrightarrow> typeSize mod sizeof_Index TYPE('a) = 0) \<longrightarrow>
            mallocCalls (snd (allocateMT dbg f typeSize)) = Suc (mallocCalls a)
            \<and> (outcome a (mallocCalls a) (typeSize * ucast (m_capacityMT a)) = None \<longrightarrow>
                  fst (allocateMT dbg f typeSize) = Inl bad_alloc)
            \<and> (outcome a (mallocCalls a) (typeSize * ucast (m_capacityMT a)) \<noteq> None \<longrightarrow>
                  fst (allocateMT dbg f typeSize) \<noteq> Inl bad_alloc))"
proof -
  note r = freeMemoryMT_result [OF ret]
  have f: "\<not> m_isAllocError f" "beginMT f = 0" "elementSizeMT f = 0" "m_head f = 0"
    "m_usedCapacityMT f = 0" "mallocCalls f = mallocCalls a" "m_capacityMT f = m_capacityMT a"
    "outcome f = outcome a"
    by (simp_all add: r Alloc_free_def beginMT_def getPtr_def elementSizeMT_def)
  have p: "pull dbg f = (Inr 0, f)"
    using f(4) by (simp add: pull_empty)
  have c: "\<not> 1 > m_capacityMT a" if "m_capacityMT a \<noteq> 0"
    using that by (simp add: not_less word_le_def uint_0_iff Suc_le_eq)
  have "mallocCalls (snd (allocateMT dbg f typeSize)) = Suc (mallocCalls a)
        \<and> (outcome a (mallocCalls a) (typeSize * ucast (m_capacityMT a)) = None \<longrightarrow>
              fst (allocateMT dbg f typeSize) = Inl bad_alloc)
        \<and> (outcome a (mallocCalls a) (typeSize * ucast (m_capacityMT a)) \<noteq> None \<longrightarrow>
              fst (allocateMT dbg f typeSize) \<noteq> Inl bad_alloc)"
    if cap: "m_capacityMT a \<noteq> 0" and m: "dbg \<longrightarrow> typeSize mod sizeof_Index TYPE('a) = 0"
    using p f c [OF cap] m
    by (auto simp: allocateMT_def allocateBuffer_def Alloc_malloc_def indexed_assert_def
        Let_def beginMT_def getPtr_def split: option.splits)
  then show ?thesis using f by simp
qed

text \<open>
  The arena whose first acquisition failed: \<open>freeMemory\<close> returns in a debug build, and
  the next \<open>allocate\<close> asks the buffer source again and gets slot 1.
\<close>

lemma freeMemoryMT_after_failure:
  "m_isAllocError arenaMT16_failed
   \<and> allocateMT True arenaMT16_failed 8 = (Inl bad_alloc, arenaMT16_failed)
   \<and> freeMemoryMT True arenaMT16_failed
       = Some (Inr (), arenaMT16_failed\<lparr>m_isAllocError := False\<rparr>)
   \<and> fst (allocateMT True (arenaMT16_failed\<lparr>m_isAllocError := False\<rparr>) 8) = Inr 1
   \<and> mallocCalls (snd (allocateMT True (arenaMT16_failed\<lparr>m_isAllocError := False\<rparr>) 8)) = 2"
proof -
  have l: "latched arenaMT16_failed"
    by (simp add: latched_def arenaMT16_failed_def beginMT_def getPtr_def)
  have z: "True \<longrightarrow> m_elementSizeInIndexMT arenaMT16_failed = 0"
    by (simp add: arenaMT16_failed_def)
  have s: "allocateMT True arenaMT16_failed 8 = (Inl bad_alloc, arenaMT16_failed)"
    using l z by (rule allocateMT_latched)
  have h: "True \<longrightarrow> (ucast (m_head arenaMT16_failed) :: 16 word) = 0"
    by (simp add: arenaMT16_failed_def)
  have f: "freeMemoryMT True arenaMT16_failed
           = Some (Inr (), arenaMT16_failed\<lparr>m_isAllocError := False\<rparr>)"
    by (simp add: freeMemoryMT_returns [OF h]) (simp add: arenaMT16_failed_def Alloc_free_def)
  have r: "allocateMT True (arenaMT16_failed\<lparr>m_isAllocError := False\<rparr>) 8
           = (Inr 1, arenaMT16_failed\<lparr>m_isAllocError := False, m_ptr := 0x1000,
                 mallocCalls := 2, m_elementSizeInIndexMT := 4, m_usedCapacityMT := 1\<rparr>)"
    by (simp add: arenaMT16_failed_def allocateMT_def pull_def allocateBuffer_def
        Alloc_malloc_def indexed_assert_def elementSizeMT_def sizeof_Index_def beginMT_def
        getPtr_def Let_def)
  show ?thesis using s f r by (simp add: arenaMT16_failed_def)
qed

text \<open>
  In a debug build with a slot on the free list, \<open>freeMemory\<close> does not return: the walk
  of \<open>reset()\<close> starts after the buffer and the element size were dropped, so the address
  of every slot is the null pointer. A head handle within the used range passes
  \<open>getElement\<close>'s assertion and the read of its link crashes; any other head handle fails
  the assertion. The single-threaded \<open>freeMemory\<close> resets before it drops the buffer.
\<close>

lemma freeMemoryMT_debug_free_list:
  fixes a :: "'a::len ArrayArenaMT"
  assumes "(ucast (m_head a) :: 'a word) \<noteq> 0"
  shows "freeMemoryMT True a
         = Some (Inl (if (ucast (m_head a) :: 'a word) \<le> m_usedCapacityMT a then segfault
                      else assert_failed),
                 (Alloc_free a)\<lparr>m_elementSizeInIndexMT := 0, m_isAllocError := False\<rparr>)"
proof -
  let ?a = "(Alloc_free a)\<lparr>m_elementSizeInIndexMT := 0, m_isAllocError := False\<rparr>"
  let ?h = "ucast (m_head a) :: 'a word"
  have pos: "?h > 0" using assms by (simp add: word_greater_zero_iff)
  have g: "getElementMT True ?a ?h
           = (if ?h \<le> m_usedCapacityMT a then Inr 0 else Inl assert_failed)"
    using pos
    by (simp add: getElementMT_def getElementIntMT_def indexed_assert_def elementSizeMT_def
        beginMT_def getPtr_def Alloc_free_def)
  have mh: "m_head (Alloc_free a) = m_head a" by (simp add: Alloc_free_def)
  have "listLength True ?a
        = Some (Inl (if ?h \<le> m_usedCapacityMT a then segfault else assert_failed))"
    unfolding listLength_def
    by (subst listLength_loop.simps) (simp add: g mh assms)
  then show ?thesis by (simp add: freeMemoryMT_def resetMT_def)
qed

text \<open>
  \<open>reset()\<close> alone, on the arena that still holds its buffer, walks the one slot of the
  free list and returns in a debug build too.
\<close>

lemma resetMT_walks_free_list:
  "listLength True arenaMT16_freed = Some (Inr 1)
   \<and> resetMT True arenaMT16_freed
       = Some (Inr (), arenaMT16_freed\<lparr>m_head := 0, m_usedCapacityMT := 0\<rparr>)"
proof -
  have g: "getElementMT True arenaMT16_freed 1 = Inr 0x1000"
    by (simp add: getElementMT_def getElementIntMT_def indexed_assert_def elementSizeMT_def
        beginMT_def getPtr_def index_minus_1_def sizeof_Index_def arenaMT16_freed_def)
  have h: "(ucast (m_head arenaMT16_freed) :: 16 word) = 1" "heapMT arenaMT16_freed 0x1000 = 0"
    by (simp_all add: arenaMT16_freed_def)
  have z: "listLength_loop True arenaMT16_freed 1 0 = Some (Inr 1)"
    by (subst listLength_loop.simps) simp
  have l: "listLength True arenaMT16_freed = Some (Inr 1)"
    unfolding listLength_def h(1)
    by (subst listLength_loop.simps) (simp add: g h(2) z)
  then show ?thesis by (simp add: resetMT_def)
qed

text \<open>
  C10. The debug build of \<open>freeMemory\<close>, called on the multi-threaded arena with one slot
  on its free list, ends in the crash of a read through the null pointer: the buffer, the
  element size and the error flag are dropped, the free list and the used capacity are
  still there, and no \<open>allocate\<close> can follow. The release build of the same call returns
  with the free list emptied.
\<close>

theorem freeMemory_walks_the_released_buffer:
  "freeMemoryMT True arenaMT16_freed
     = Some (Inl segfault, arenaMT16_freed\<lparr>m_ptr := 0, m_elementSizeInIndexMT := 0\<rparr>)
   \<and> freeMemoryMT False arenaMT16_freed
     = Some (Inr (), arenaMT16_freed\<lparr>m_ptr := 0, m_elementSizeInIndexMT := 0,
                                      m_head := 0, m_usedCapacityMT := 0\<rparr>)"
proof -
  have h: "(ucast (m_head arenaMT16_freed) :: 16 word) \<noteq> 0"
    by (simp add: arenaMT16_freed_def)
  have d: "freeMemoryMT True arenaMT16_freed
           = Some (Inl segfault, arenaMT16_freed\<lparr>m_ptr := 0, m_elementSizeInIndexMT := 0\<rparr>)"
    by (simp add: freeMemoryMT_debug_free_list [OF h])
       (simp add: arenaMT16_freed_def Alloc_free_def)
  have r: "freeMemoryMT False arenaMT16_freed
           = Some (Inr (), arenaMT16_freed\<lparr>m_ptr := 0, m_elementSizeInIndexMT := 0,
                                            m_head := 0, m_usedCapacityMT := 0\<rparr>)"
    by (simp add: freeMemoryMT_def resetMT_def arenaMT16_freed_def Alloc_free_def)
  from d r show ?thesis by simp
qed

section \<open>The configurations\<close>

text \<open>
  C7, as the claim states it, fails: the simple configuration has no arena-range test.
  With the buffer 256 bytes below the stack top, the address of slot 2 lies in the arena
  range, the arena's \<open>pointer_to\<close> gives handle 2, and the configuration returns the stack
  handle \<open>0x807c\<close>.
\<close>

theorem simple_config_arena_first_counterexample:
  "arena_begin (arena simple16) \<le> 0x7ffffe08 \<and> 0x7ffffe08 < arena_end (arena simple16)
   \<and> pointer_to True (arena simple16) 0x7ffffe08 = Inr 2
   \<and> SingleArenaConfig_pointer_to True 2 simple16 0x7ffffe08 = Inr 0x807c
   \<and> (0x807c :: 16 word) AND kOnStackFlag TYPE(16) \<noteq> 0"
  by (simp add: SingleArenaConfig_pointer_to_def simple16_def arena16_on_stack_def arena16_def
      pointer_to_def arena_begin_def arena_end_def getPtr_def elementSize_def sizeof_Index_def
      kMaxStackSize_def kOnStackFlag_def indexed_assert_def Let_def)

text \<open>
  C7, amended. The simple configuration tests the stack range first, for every address:
  with \<open>0 \<le> stackTop - addr < 2 MiB\<close> the handle is \<open>((stackTop - addr) / A) | ONSTACK\<close>,
  whose tag bit is set, also for an address inside the arena's buffer (the alignment is
  not 0 and, in a debug build, the two assertions hold). Every other address goes to the
  arena's \<open>pointer_to\<close>; for an address in \<open>[begin, end)\<close> of an arena whose capacity is
  below \<open>2 ^ (W - 1)\<close>, as \<open>setCapacity\<close> ensures, the handle returned has tag bit 0.
\<close>

theorem simple_config_tests_stack_first:
  fixes cfg :: "'a::len ConfigStore"
  assumes idx: "Index_ok TYPE('a)"
  shows "(0 \<le> sint (stackTop cfg - p) \<and> sint (stackTop cfg - p) < sint kMaxStackSize
          \<and> kNodeAlignment \<noteq> 0
          \<and> (dbg \<longrightarrow> (stackTop cfg - p) div kNodeAlignment < ucast (kOnStackFlag TYPE('a))
                    \<and> (stackTop cfg - p) div kNodeAlignment * kNodeAlignment = stackTop cfg - p)
          \<longrightarrow> SingleArenaConfig_pointer_to dbg kNodeAlignment cfg p
                = Inr (ucast ((stackTop cfg - p) div kNodeAlignment) OR kOnStackFlag TYPE('a))
              \<and> (ucast ((stackTop cfg - p) div kNodeAlignment) OR kOnStackFlag TYPE('a))
                   AND kOnStackFlag TYPE('a) \<noteq> 0)
       \<and> (\<not> (0 \<le> sint (stackTop cfg - p) \<and> sint (stackTop cfg - p) < sint kMaxStackSize)
          \<longrightarrow> SingleArenaConfig_pointer_to dbg kNodeAlignment cfg p
                = pointer_to dbg (arena cfg) p
              \<and> (unat (m_capacity (arena cfg)) < 2 ^ (LENGTH('a) - 1)
                  \<and> arena_begin (arena cfg) \<le> p \<and> p < arena_end (arena cfg)
                  \<and> pointer_to dbg (arena cfg) p = Inr h
                  \<longrightarrow> h AND kOnStackFlag TYPE('a) = 0))"
proof -
  have f: "kOnStackFlag TYPE('a) \<noteq> 0"
    using idx by (auto simp: Index_ok_def kOnStackFlag_def sizeof_Index_def)
  have tag: "(x OR kOnStackFlag TYPE('a)) AND kOnStackFlag TYPE('a) \<noteq> 0" for x :: "'a word"
    using f by (simp add: ac_simps)
  have stack: "SingleArenaConfig_pointer_to dbg kNodeAlignment cfg p
               = Inr (ucast ((stackTop cfg - p) div kNodeAlignment) OR kOnStackFlag TYPE('a))"
    if "0 \<le> sint (stackTop cfg - p)" "sint (stackTop cfg - p) < sint kMaxStackSize"
      "kNodeAlignment \<noteq> 0"
      "dbg \<longrightarrow> (stackTop cfg - p) div kNodeAlignment < ucast (kOnStackFlag TYPE('a))
              \<and> (stackTop cfg - p) div kNodeAlignment * kNodeAlignment = stackTop cfg - p"
    using that by (simp add: SingleArenaConfig_pointer_to_def Let_def indexed_assert_def)
  have other: "SingleArenaConfig_pointer_to dbg kNodeAlignment cfg p = pointer_to dbg (arena cfg) p"
    if "\<not> (0 \<le> sint (stackTop cfg - p) \<and> sint (stackTop cfg - p) < sint kMaxStackSize)"
    unfolding SingleArenaConfig_pointer_to_def Let_def
    by (simp only: that if_False)
  have untagged: "h AND kOnStackFlag TYPE('a) = 0"
    if "unat (m_capacity (arena cfg)) < 2 ^ (LENGTH('a) - 1)"
      "arena_begin (arena cfg) \<le> p" "p < arena_end (arena cfg)"
      "pointer_to dbg (arena cfg) p = Inr h"
    using pointer_to_in_range_untagged [OF idx that] .
  show ?thesis
    using tag stack other untagged by blast
qed

theorem simple_config_tests_stack_first_witness:
  "Index_ok TYPE(16)
   \<and> 0 \<le> sint (stackTop simple16 - 0x7ffffe08)
   \<and> sint (stackTop simple16 - 0x7ffffe08) < sint kMaxStackSize
   \<and> arena_begin (arena simple16) \<le> 0x7ffffe08 \<and> 0x7ffffe08 < arena_end (arena simple16)
   \<and> SingleArenaConfig_pointer_to True 2 simple16 0x7ffffe08 = Inr 0x807c
   \<and> \<not> (0 \<le> sint (stackTop simple16_heap - 0x1008)
         \<and> sint (stackTop simple16_heap - 0x1008) < sint kMaxStackSize)
   \<and> unat (m_capacity (arena simple16_heap)) < 2 ^ (LENGTH(16) - 1)
   \<and> arena_begin (arena simple16_heap) \<le> 0x1008 \<and> 0x1008 < arena_end (arena simple16_heap)
   \<and> pointer_to True (arena simple16_heap) 0x1008 = Inr 2
   \<and> SingleArenaConfig_pointer_to True 2 simple16_heap 0x1008 = Inr 2
   \<and> (2 :: 16 word) AND kOnStackFlag TYPE(16) = 0"
proof -
  have idx: "Index_ok TYPE(16)" by (simp add: Index_ok_def)
  have s: "stackTop simple16 - 0x7ffffe08 = 0xf8" "stackTop simple16_heap - 0x1008 = 0x7fffeef8"
    by (simp_all add: simple16_def simple16_heap_def)
  have k: "sint kMaxStackSize = 2097152" by (simp add: kMaxStackSize_def)
  have f: "kOnStackFlag TYPE(16) = 0x8000" by (simp add: kOnStackFlag_def sizeof_Index_def)
  have r1: "arena_begin (arena simple16) \<le> 0x7ffffe08 \<and> 0x7ffffe08 < arena_end (arena simple16)"
    by (simp add: simple16_def arena16_on_stack_def arena16_def arena_begin_def arena_end_def
        getPtr_def elementSize_def sizeof_Index_def)
  have r2: "unat (m_capacity (arena simple16_heap)) < 2 ^ (LENGTH(16) - 1)
            \<and> arena_begin (arena simple16_heap) \<le> 0x1008
            \<and> 0x1008 < arena_end (arena simple16_heap)"
    by (simp add: simple16_heap_def arena16_def arena_begin_def arena_end_def
        getPtr_def elementSize_def sizeof_Index_def)
  have p2: "pointer_to True (arena simple16_heap) 0x1008 = Inr 2"
    by (simp add: simple16_heap_def arena16_def pointer_to_def arena_begin_def getPtr_def
        elementSize_def sizeof_Index_def indexed_assert_def Let_def)
  show ?thesis
    using simple_config_tests_stack_first [OF idx, of simple16 "0x7ffffe08" 2 True]
      simple_config_tests_stack_first [OF idx, of simple16_heap "0x1008" 2 True 2]
      idx r1 r2 p2
    by (simp add: s k f)
qed

text \<open>
  C8, as the claim states it, fails: the address \<open>0x7ffffefe\<close> lies 2 bytes below the
  stack top \<open>0x7fffff00\<close>, not 8, and its handle is \<open>(2 / 2) | 0x8000 = 0x8001\<close>.
\<close>

theorem stack_encoding_counterexample:
  "SingleArenaConfigUniversal_pointer_to True 0 2 universal16 0x7ffffefe = Inr 0x8001
   \<and> (0x8001 :: 16 word) \<noteq> 0x8004
   \<and> stackTop universal16 - 0x7ffffefe = 2"
  by (simp add: SingleArenaConfigUniversal_pointer_to_def universal16_def arena16_def
      arena_begin_def arena_end_def getPtr_def elementSize_def sizeof_Index_def
      kMaxStackSize_def kOnStackFlag_def indexed_assert_def Let_def)

text \<open>
  C8, amended. With 16-bit handles, node alignment 2 and the stack top at \<open>0x7fffff00\<close>,
  the address 8 bytes below the top, \<open>0x7ffffef8\<close>, encodes to \<open>(8 / 2) | 0x8000 = 0x8004\<close>
  and \<open>0x8004\<close> decodes to \<open>0x7fffff00 - 2 * 4 = 0x7ffffef8\<close>; the address \<open>0x7ffffefe\<close>
  encodes to \<open>0x8001\<close>. This holds for every arena and container, the addresses being
  outside the arena's buffer when the object size is 0 (the arena range is tested first
  then).
\<close>

theorem stack_encoding_example:
  fixes cfg :: "16 ConfigStoreUniversal"
  assumes top: "stackTop cfg = 0x7fffff00"
    and out8: "kObjectSize = 0 \<longrightarrow>
                 \<not> (arena_begin (arena cfg) \<le> 0x7ffffef8 \<and> 0x7ffffef8 < arena_end (arena cfg))"
    and out2: "kObjectSize = 0 \<longrightarrow>
                 \<not> (arena_begin (arena cfg) \<le> 0x7ffffefe \<and> 0x7ffffefe < arena_end (arena cfg))"
  shows "SingleArenaConfigUniversal_pointer_to dbg kObjectSize 2 cfg 0x7ffffef8 = Inr 0x8004
       \<and> SingleArenaConfigUniversal_getElement dbg 2 cfg 0x8004 = Inr 0x7ffffef8
       \<and> SingleArenaConfigUniversal_pointer_to dbg kObjectSize 2 cfg 0x7ffffefe = Inr 0x8001"
proof -
  have c8: "\<not> (kObjectSize = 0 \<and> arena_begin (arena cfg) \<le> 0x7ffffef8
                 \<and> 0x7ffffef8 < arena_end (arena cfg))"
    using out8 by blast
  have c2: "\<not> (kObjectSize = 0 \<and> arena_begin (arena cfg) \<le> 0x7ffffefe
                 \<and> 0x7ffffefe < arena_end (arena cfg))"
    using out2 by blast
  have e8: "SingleArenaConfigUniversal_pointer_to dbg kObjectSize 2 cfg 0x7ffffef8 = Inr 0x8004"
    unfolding SingleArenaConfigUniversal_pointer_to_def
    by (simp only: c8 if_False)
      (simp add: top sizeof_Index_def kMaxStackSize_def kOnStackFlag_def indexed_assert_def)
  have e2: "SingleArenaConfigUniversal_pointer_to dbg kObjectSize 2 cfg 0x7ffffefe = Inr 0x8001"
    unfolding SingleArenaConfigUniversal_pointer_to_def
    by (simp only: c2 if_False)
      (simp add: top sizeof_Index_def kMaxStackSize_def kOnStackFlag_def indexed_assert_def)
  have d: "SingleArenaConfigUniversal_getElement dbg 2 cfg 0x8004 = Inr 0x7ffffef8"
    using top
    by (simp add: SingleArenaConfigUniversal_getElement_def sizeof_Index_def
        kOnStackFlag_def kContainerFlag_def)
  show ?thesis using e8 e2 d by simp
qed

theorem stack_encoding_example_witness:
  "stackTop universal16 = 0x7fffff00
   \<and> \<not> (arena_begin (arena universal16) \<le> 0x7ffffef8
         \<and> 0x7ffffef8 < arena_end (arena universal16))
   \<and> \<not> (arena_begin (arena universal16) \<le> 0x7ffffefe
         \<and> 0x7ffffefe < arena_end (arena universal16))
   \<and> SingleArenaConfigUniversal_pointer_to True 0 2 universal16 0x7ffffef8 = Inr 0x8004
   \<and> SingleArenaConfigUniversal_getElement True 2 universal16 0x8004 = Inr 0x7ffffef8"
proof -
  have top: "stackTop universal16 = 0x7fffff00" by (simp add: universal16_def)
  have e: "arena_end (arena universal16) = 0x1020"
    by (simp add: universal16_def arena16_def arena_end_def arena_begin_def getPtr_def
        elementSize_def sizeof_Index_def)
  have out8: "\<not> (arena_begin (arena universal16) \<le> 0x7ffffef8
                 \<and> 0x7ffffef8 < arena_end (arena universal16))"
    by (simp add: e)
  have out2: "\<not> (arena_begin (arena universal16) \<le> 0x7ffffefe
                 \<and> 0x7ffffefe < arena_end (arena universal16))"
    by (simp add: e)
  show ?thesis
    using stack_encoding_example [of universal16 0 True, OF top] top out8 out2 by simp
qed

end
